theory Spec2Isabelle
  imports Main "HOL-Library.AList"
begin

section \<open>The message coordinator of conduit-mcp\<close>

text \<open>
  A shallow embedding of \<^verbatim>\<open>src/conduit/server/coordinator.py\<close> (class
  \<^verbatim>\<open>MessageCoordinator\<close>). Every coroutine of the class is a function from the
  state before the call to an outcome and the state after it. An outcome is a value of
  \<open>exn + 'a\<close>: \<open>Inl e\<close> when the coroutine raises \<open>e\<close>, \<open>Inr v\<close> when it returns \<open>v\<close>.
  A coroutine runs without interleaving except at the two awaits whose result comes from
  somebody else: the completion handle awaited in \<^verbatim>\<open>send_request\<close> and the handler tasks
  spawned by the message loop, which are run by a scheduler step of their own.
\<close>

subsection \<open>Protocol values\<close>

type_synonym client_id = string

text \<open>\<^verbatim>\<open>request_id: str | int\<close>.\<close>

datatype request_id = IdStr string | IdInt int

datatype json =
    JNull
  | JBool bool
  | JInt int
  | JStr string
  | JArr "json list"
  | JObj "(string \<times> json) list"

record request =
  "method" :: string
  params :: json

datatype result = Result json

text \<open>
  \<^verbatim>\<open>Error(code, message, data)\<close>. The one structured \<^verbatim>\<open>data\<close> value the coordinator
  builds itself is the dictionary \<^verbatim>\<open>{"request": request}\<close>, here \<open>EchoRequest request\<close>.
\<close>

datatype error_data = EchoRequest request | JsonData json

record error =
  code :: int
  message :: string
  data :: "error_data option"

text \<open>A handler returns \<^verbatim>\<open>Result | Error\<close>; the code tells them apart with \<^verbatim>\<open>isinstance\<close>.\<close>

datatype result_or_error = IsResult result | IsError error

datatype notification =
    CancelledNotification request_id "string option"
  | OtherNotification string json

text \<open>
  The JSON-RPC envelopes of \<^verbatim>\<open>conduit.protocol.jsonrpc\<close>, built by
  \<^verbatim>\<open>JSONRPCRequest.from_request(request, request_id)\<close>,
  \<^verbatim>\<open>JSONRPCNotification.from_notification(notification)\<close>,
  \<^verbatim>\<open>JSONRPCResponse.from_result(result, request_id)\<close> and
  \<^verbatim>\<open>JSONRPCError.from_error(error, request_id)\<close>. The module is not part of the
  sources at hand; an envelope stands for the wire object its \<^verbatim>\<open>to_wire()\<close> yields.
\<close>

datatype frame =
    JSONRPCRequest request_id request
  | JSONRPCNotification notification
  | JSONRPCResponse request_id result
  | JSONRPCError request_id error

text \<open>
  An inbound payload is a decoded JSON object; the coordinator reads its \<^verbatim>\<open>"id"\<close> and
  \<^verbatim>\<open>"method"\<close> entries and hands the rest to the parser.
\<close>

record payload =
  p_id :: "request_id option"
  p_method :: "string option"
  p_params :: "json option"
  p_result :: "json option"
  p_error :: "json option"

record client_message =
  msg_client_id :: client_id
  msg_payload :: payload

subsection \<open>Exceptions\<close>

text \<open>
  \<open>TimeoutError\<close> is \<^verbatim>\<open>asyncio.TimeoutError\<close>. \<open>CancelledError\<close> and \<open>BaseException\<close> are
  the exceptions outside \<^verbatim>\<open>Exception\<close>, which an \<^verbatim>\<open>except Exception\<close> clause lets through.
\<close>

datatype exn =
    RuntimeError string
  | ValueError string
  | KeyError string
  | ConnectionError string
  | TimeoutError
  | Exception string
  | CancelledError
  | BaseException string

fun is_Exception :: "exn \<Rightarrow> bool" where
  "is_Exception CancelledError = False"
| "is_Exception (BaseException m) = False"
| "is_Exception e = True"

text \<open>
  Modelled from the spec: the error codes \<^verbatim>\<open>METHOD_NOT_FOUND\<close> and \<^verbatim>\<open>INTERNAL_ERROR\<close> are
  defined in \<^verbatim>\<open>conduit.protocol.base\<close>, which is not part of the sources at hand; section 6
  of the specification gives their values.
\<close>

definition METHOD_NOT_FOUND :: int where
  "METHOD_NOT_FOUND = - 32601"

definition INTERNAL_ERROR :: int where
  "INTERNAL_ERROR = - 32603"

subsection \<open>Handlers, tasks and completion handles\<close>

text \<open>
  A handler is a registered callback. All the coordinator sees of a call is whether it
  returns a value or raises.
\<close>

datatype handler_outcome = Returns result_or_error | Raises exn

type_synonym request_handler = "client_id \<Rightarrow> request \<Rightarrow> handler_outcome"

type_synonym notification_handler = "client_id \<Rightarrow> notification \<Rightarrow> exn option"

text \<open>
  The coroutine an \<^verbatim>\<open>asyncio\<close> task was created for:
  \<^verbatim>\<open>_execute_request_handler(handler, client_id, request_id, request)\<close> or
  \<^verbatim>\<open>handler(client_id, notification)\<close>.
\<close>

datatype task_body =
    RequestTask request_handler client_id request_id request
  | NotificationTask notification_handler client_id notification

datatype task_status = Pending | Finished | Failed exn | Cancelled

text \<open>
  The only done-callback the coordinator attaches to a handler task is
  \<^verbatim>\<open>lambda t: untrack_request_from_client(client_id, request_id)\<close>, kept as the pair.
\<close>

record task =
  body :: task_body
  status :: task_status
  done_callbacks :: "(client_id \<times> request_id) list"

datatype future = Unresolved | Resolved result_or_error | CancellationError

subsection \<open>Transport\<close>

text \<open>
  Modelled from the spec: the transport (\<^verbatim>\<open>conduit.transport.server\<close>) is an external
  collaborator with \<^verbatim>\<open>send(client_id, payload)\<close>, which is ``async; may fail with a
  connection-style error''. \<open>calls\<close> lists every payload handed to \<^verbatim>\<open>send\<close>,
  \<open>delivered\<close> those it accepted, and \<open>faults\<close> scripts the coming calls: \<open>True\<close> makes
  the call raise \<^verbatim>\<open>ConnectionError\<close>; when the script is used up every call is accepted.
\<close>

record transport =
  calls :: "(client_id \<times> frame) list"
  delivered :: "(client_id \<times> frame) list"
  faults :: "bool list"

subsection \<open>State\<close>

text \<open>
  Modelled from the spec: \<^verbatim>\<open>ClientState\<close> of the client manager
  (\<^verbatim>\<open>conduit.server.client_manager\<close>), with the inbound table (requests received from
  the client and still executing, each with its task) and the outbound table (requests
  sent to the client and awaiting a reply, each with its completion handle).
\<close>

record client_state =
  inbound :: "(request_id \<times> request \<times> nat) list"
  outbound :: "(request_id \<times> request \<times> nat) list"

text \<open>
  The parser (\<^verbatim>\<open>conduit.shared.message_parser\<close>) is not part of the sources at hand; the
  coordinator is parametric in the six methods it calls.
\<close>

record parser =
  is_valid_request :: "payload \<Rightarrow> bool"
  is_valid_notification :: "payload \<Rightarrow> bool"
  is_valid_response :: "payload \<Rightarrow> bool"
  parse_request :: "payload \<Rightarrow> error + request"
  parse_notification :: "payload \<Rightarrow> notification option"
  parse_response :: "payload \<Rightarrow> request \<Rightarrow> result_or_error"

datatype loop_task = LoopPending | LoopDone

text \<open>The lines the coordinator prints, one constructor for each \<^verbatim>\<open>print\<close> call of the class.\<close>

datatype log_line =
    ErrorHandlingMessage client_id exn
  | TransportError exn
  | UnknownMessageType client_id
  | UnknownNotification string client_id
  | NoPendingRequest request_id client_id
  | ErrorSendingCancellation client_id exn

text \<open>
  The fields of \<^verbatim>\<open>MessageCoordinator\<close> (\<open>clients\<close> and \<open>futures\<close> are the client
  manager's share), the tasks of the event loop, and what was printed.
\<close>

record coordinator =
  transport :: transport
  clients :: "(client_id \<times> client_state) list"
  futures :: "future list"
  parser :: parser
  request_handlers :: "(string \<times> request_handler) list"
  notification_handlers :: "(string \<times> notification_handler) list"
  message_loop_task :: "loop_task option"
  tasks :: "task list"
  printed :: "log_line list"

definition print :: "log_line \<Rightarrow> coordinator \<Rightarrow> coordinator" where
  "print l s = s\<lparr>printed := printed s @ [l]\<rparr>"

definition transport_send :: "client_id \<Rightarrow> frame \<Rightarrow> coordinator \<Rightarrow> (exn + unit) \<times> coordinator" where
  "transport_send client_id f s =
     (let t = (transport s)\<lparr>calls := calls (transport s) @ [(client_id, f)]\<rparr>
      in if faults t \<noteq> [] \<and> hd (faults t)
         then (Inl (ConnectionError ''send failed''), s\<lparr>transport := t\<lparr>faults := tl (faults t)\<rparr>\<rparr>)
         else (Inr (),
               s\<lparr>transport := t\<lparr>delivered := delivered t @ [(client_id, f)],
                                 faults := tl (faults t)\<rparr>\<rparr>))"

subsection \<open>Tasks and completion handles of the event loop\<close>

text \<open>\<^verbatim>\<open>asyncio.create_task\<close>: the new task is identified by its position in the task list.\<close>

definition create_task :: "task_body \<Rightarrow> coordinator \<Rightarrow> nat \<times> coordinator" where
  "create_task b s =
     (length (tasks s),
      s\<lparr>tasks := tasks s @ [\<lparr>body = b, status = Pending, done_callbacks = []\<rparr>]\<rparr>)"

definition add_done_callback :: "nat \<Rightarrow> client_id \<times> request_id \<Rightarrow> coordinator \<Rightarrow> coordinator" where
  "add_done_callback tid cb s =
     (if tid < length (tasks s)
      then s\<lparr>tasks := (tasks s)[tid := (tasks s ! tid)\<lparr>done_callbacks :=
                 done_callbacks (tasks s ! tid) @ [cb]\<rparr>]\<rparr>
      else s)"

text \<open>\<^verbatim>\<open>task.cancel()\<close>: true when the task was not done yet.\<close>

definition cancel_task :: "nat \<Rightarrow> coordinator \<Rightarrow> bool \<times> coordinator" where
  "cancel_task tid s =
     (if tid < length (tasks s) \<and> status (tasks s ! tid) = Pending
      then (True, s\<lparr>tasks := (tasks s)[tid := (tasks s ! tid)\<lparr>status := Cancelled\<rparr>]\<rparr>)
      else (False, s))"

definition new_future :: "coordinator \<Rightarrow> nat \<times> coordinator" where
  "new_future s = (length (futures s), s\<lparr>futures := futures s @ [Unresolved]\<rparr>)"

text \<open>A completion handle is resolved at most once; a second resolution changes nothing.\<close>

definition resolve_future :: "nat \<Rightarrow> future \<Rightarrow> coordinator \<Rightarrow> coordinator" where
  "resolve_future fid v s =
     (if fid < length (futures s) \<and> futures s ! fid = Unresolved
      then s\<lparr>futures := (futures s)[fid := v]\<rparr>
      else s)"

subsection \<open>Client manager\<close>

text \<open>
  Modelled from the spec: \<^verbatim>\<open>ClientManager\<close> (\<^verbatim>\<open>conduit.server.client_manager\<close>) is not
  part of the sources at hand. Its operations follow section 4.3 of the specification.
\<close>

definition get_client :: "client_id \<Rightarrow> coordinator \<Rightarrow> client_state option" where
  "get_client client_id s = map_of (clients s) client_id"

definition register_client :: "client_id \<Rightarrow> coordinator \<Rightarrow> coordinator" where
  "register_client client_id s =
     s\<lparr>clients := AList.update client_id \<lparr>inbound = [], outbound = []\<rparr> (clients s)\<rparr>"

text \<open>
  Modelled from the spec: ``insert into the client's inbound table; fail if an entry with
  that id already exists''. The specification does not say what tracking does for a client
  that is not registered; the coordinator registers the client before it tracks, and the
  case is a failure here.
\<close>

definition track_request_from_client ::
  "client_id \<Rightarrow> request_id \<Rightarrow> request \<Rightarrow> nat \<Rightarrow> coordinator \<Rightarrow> (exn + unit) \<times> coordinator" where
  "track_request_from_client client_id request_id request tid s =
     (case get_client client_id s of
        None \<Rightarrow> (Inl (ValueError ''client not registered''), s)
      | Some cs \<Rightarrow>
          if map_of (inbound cs) request_id \<noteq> None
          then (Inl (ValueError ''duplicate request id''), s)
          else (Inr (),
                s\<lparr>clients := AList.update client_id
                     (cs\<lparr>inbound := AList.update request_id (request, tid) (inbound cs)\<rparr>)
                     (clients s)\<rparr>))"

text \<open>Modelled from the spec: ``atomic remove-and-return''.\<close>

definition untrack_request_from_client ::
  "client_id \<Rightarrow> request_id \<Rightarrow> coordinator \<Rightarrow> (request \<times> nat) option \<times> coordinator" where
  "untrack_request_from_client client_id request_id s =
     (case get_client client_id s of
        None \<Rightarrow> (None, s)
      | Some cs \<Rightarrow>
          (map_of (inbound cs) request_id,
           s\<lparr>clients := AList.update client_id
                (cs\<lparr>inbound := AList.delete request_id (inbound cs)\<rparr>) (clients s)\<rparr>))"

definition track_request_to_client ::
  "client_id \<Rightarrow> request_id \<Rightarrow> request \<Rightarrow> nat \<Rightarrow> coordinator \<Rightarrow> (exn + unit) \<times> coordinator" where
  "track_request_to_client client_id request_id request fid s =
     (case get_client client_id s of
        None \<Rightarrow> (Inl (ValueError ''client not registered''), s)
      | Some cs \<Rightarrow>
          (Inr (),
           s\<lparr>clients := AList.update client_id
                (cs\<lparr>outbound := AList.update request_id (request, fid) (outbound cs)\<rparr>)
                (clients s)\<rparr>))"

definition untrack_request_to_client ::
  "client_id \<Rightarrow> request_id \<Rightarrow> coordinator \<Rightarrow> (request \<times> nat) option \<times> coordinator" where
  "untrack_request_to_client client_id request_id s =
     (case get_client client_id s of
        None \<Rightarrow> (None, s)
      | Some cs \<Rightarrow>
          (map_of (outbound cs) request_id,
           s\<lparr>clients := AList.update client_id
                (cs\<lparr>outbound := AList.delete request_id (outbound cs)\<rparr>) (clients s)\<rparr>))"

definition get_request_to_client ::
  "client_id \<Rightarrow> request_id \<Rightarrow> coordinator \<Rightarrow> (request \<times> nat) option" where
  "get_request_to_client client_id request_id s =
     (case get_client client_id s of
        None \<Rightarrow> None
      | Some cs \<Rightarrow> map_of (outbound cs) request_id)"

definition get_request_from_client ::
  "client_id \<Rightarrow> request_id \<Rightarrow> coordinator \<Rightarrow> (request \<times> nat) option" where
  "get_request_from_client client_id request_id s =
     (case get_client client_id s of
        None \<Rightarrow> None
      | Some cs \<Rightarrow> map_of (inbound cs) request_id)"

text \<open>
  Modelled from the spec: ``remove the entry and resolve the completion handle exactly
  once; a second resolution is a silent no-op''.
\<close>

definition resolve_request_to_client ::
  "client_id \<Rightarrow> request_id \<Rightarrow> result_or_error \<Rightarrow> coordinator \<Rightarrow> coordinator" where
  "resolve_request_to_client client_id request_id v s =
     (case untrack_request_to_client client_id request_id s of
        (None, s1) \<Rightarrow> s1
      | (Some (request, fid), s1) \<Rightarrow> resolve_future fid (Resolved v) s1)"

text \<open>
  Modelled from the spec: ``cancel every inbound task, resolve every outbound completion
  handle with a cancellation error, drop the client''.
\<close>

definition cleanup_client :: "client_id \<Rightarrow> coordinator \<Rightarrow> coordinator" where
  "cleanup_client client_id s =
     (case get_client client_id s of
        None \<Rightarrow> s
      | Some cs \<Rightarrow>
          (let s1 = fold (\<lambda>(request_id, request, tid) s'. snd (cancel_task tid s')) (inbound cs) s;
               s2 = fold (\<lambda>(request_id, request, fid) s'. resolve_future fid CancellationError s')
                      (outbound cs) s1
           in s2\<lparr>clients := AList.delete client_id (clients s2)\<rparr>))"

text \<open>Modelled from the spec: ``fold over all clients''.\<close>

definition cleanup_all_clients :: "coordinator \<Rightarrow> coordinator" where
  "cleanup_all_clients s = fold cleanup_client (map fst (clients s)) s"

subsection \<open>Construction and registration\<close>

text \<open>
  \<^verbatim>\<open>__init__(transport, client_manager)\<close>, with the parser it creates, and no task or
  completion handle in the event loop yet.
\<close>

definition init ::
  "transport \<Rightarrow> (client_id \<times> client_state) list \<Rightarrow> parser \<Rightarrow> coordinator" where
  "init t client_manager p =
     \<lparr>transport = t, clients = client_manager, futures = [], parser = p,
      request_handlers = [], notification_handlers = [], message_loop_task = None,
      tasks = [], printed = []\<rparr>"

definition register_request_handler ::
  "string \<Rightarrow> request_handler \<Rightarrow> coordinator \<Rightarrow> coordinator" where
  "register_request_handler m handler s =
     s\<lparr>request_handlers := AList.update m handler (request_handlers s)\<rparr>"


subsection \<open>Lifecycle\<close>

text \<open>\<^verbatim>\<open>self._message_loop_task is not None and not self._message_loop_task.done()\<close>.\<close>

definition running :: "coordinator \<Rightarrow> bool" where
  "running s = (message_loop_task s = Some LoopPending)"

definition start :: "coordinator \<Rightarrow> coordinator" where
  "start s = (if running s then s else s\<lparr>message_loop_task := Some LoopPending\<rparr>)"

definition on_message_loop_done :: "coordinator \<Rightarrow> coordinator" where
  "on_message_loop_done s = cleanup_all_clients (s\<lparr>message_loop_task := None\<rparr>)"

text \<open>
  The message loop task ends: the transport's stream is exhausted (\<open>None\<close>), the stream
  raises (an \<^verbatim>\<open>Exception\<close> is printed as a transport error by the outer handler of
  \<^verbatim>\<open>_message_loop\<close>), or the task is cancelled (\<open>Some CancelledError\<close>). The task is
  done from then on, and the event loop calls the done-callback that \<^verbatim>\<open>start\<close> attached.
\<close>

definition message_loop_exit :: "exn option \<Rightarrow> coordinator \<Rightarrow> coordinator" where
  "message_loop_exit cause s =
     (if running s
      then (let s1 = (case cause of
                        None \<Rightarrow> s
                      | Some e \<Rightarrow> if is_Exception e then print (TransportError e) s else s)
            in on_message_loop_done (s1\<lparr>message_loop_task := Some LoopDone\<rparr>))
      else s)"

text \<open>
  \<^verbatim>\<open>stop\<close>: the task is cancelled and awaited, which is the exit of the loop by
  cancellation; then the field is cleared and the clients are cleaned up.
\<close>

definition stop :: "coordinator \<Rightarrow> coordinator" where
  "stop s =
     (if \<not> running s then s
      else (let s1 = message_loop_exit (Some CancelledError) s;
                s2 = s1\<lparr>message_loop_task := None\<rparr>
            in cleanup_all_clients s2))"

subsection \<open>Helpers\<close>

definition ensure_client_registered :: "client_id \<Rightarrow> coordinator \<Rightarrow> coordinator" where
  "ensure_client_registered client_id s =
     (if get_client client_id s = None then register_client client_id s else s)"

text \<open>
  \<^verbatim>\<open>error.code == PROTOCOL_VERSION_MISMATCH\<close>. The value of the constant is defined in
  \<^verbatim>\<open>conduit.protocol.base\<close>, which is not part of the sources at hand, so it is the first
  argument.
\<close>

definition should_disconnect_for_error :: "int \<Rightarrow> error \<Rightarrow> bool" where
  "should_disconnect_for_error PROTOCOL_VERSION_MISMATCH err =
     (code err = PROTOCOL_VERSION_MISMATCH)"

definition send_error ::
  "client_id \<Rightarrow> request_id \<Rightarrow> error \<Rightarrow> coordinator \<Rightarrow> (exn + unit) \<times> coordinator" where
  "send_error client_id request_id err s =
     transport_send client_id (JSONRPCError request_id err) s"

subsection \<open>Handling requests\<close>

text \<open>
  The client manager's \<^verbatim>\<open>cleanup_client\<close> as \<^verbatim>\<open>_execute_request_handler\<close> calls it:
  an operation that may raise. \<open>cleanup_client_op\<close> is the one of the specification.
\<close>

type_synonym cleanup_op = "client_id \<Rightarrow> coordinator \<Rightarrow> (exn + unit) \<times> coordinator"

definition cleanup_client_op :: cleanup_op where
  "cleanup_client_op client_id s = (Inr (), cleanup_client client_id s)"

text \<open>
  The envelope for what the handler returned: \<^verbatim>\<open>JSONRPCError.from_error\<close> for an
  \<^verbatim>\<open>Error\<close>, \<^verbatim>\<open>JSONRPCResponse.from_result\<close> otherwise.
\<close>

definition handler_response :: "request_id \<Rightarrow> result_or_error \<Rightarrow> frame" where
  "handler_response request_id result_or_error =
     (case result_or_error of
        IsError err \<Rightarrow> JSONRPCError request_id err
      | IsResult res \<Rightarrow> JSONRPCResponse request_id res)"

text \<open>The error built by the \<^verbatim>\<open>except\<close> clause of \<^verbatim>\<open>_execute_request_handler\<close>.\<close>

definition internal_error :: "request \<Rightarrow> error" where
  "internal_error request =
     \<lparr>code = INTERNAL_ERROR, message = ''Problem handling request'',
      data = Some (EchoRequest request)\<rparr>"

text \<open>The body of the \<^verbatim>\<open>try\<close> statement of \<^verbatim>\<open>_execute_request_handler\<close>.\<close>

definition execute_request_handler_try ::
  "int \<Rightarrow> cleanup_op \<Rightarrow> request_handler \<Rightarrow> client_id \<Rightarrow> request_id \<Rightarrow> request \<Rightarrow>
   coordinator \<Rightarrow> (exn + unit) \<times> coordinator" where
  "execute_request_handler_try PROTOCOL_VERSION_MISMATCH cleanup handler client_id request_id
       request s =
     (case handler client_id request of
        Raises e \<Rightarrow> (Inl e, s)
      | Returns result_or_error \<Rightarrow>
          (case transport_send client_id (handler_response request_id result_or_error) s of
             (Inl e, s1) \<Rightarrow> (Inl e, s1)
           | (Inr u, s1) \<Rightarrow>
               (case result_or_error of
                  IsError err \<Rightarrow>
                    if should_disconnect_for_error PROTOCOL_VERSION_MISMATCH err
                    then cleanup client_id s1
                    else (Inr (), s1)
                | IsResult res \<Rightarrow> (Inr (), s1))))"

text \<open>
  \<^verbatim>\<open>_execute_request_handler\<close>: the \<^verbatim>\<open>try\<close> body under \<^verbatim>\<open>except Exception\<close>, whose
  handler sends the internal error that echoes the request.
\<close>

definition execute_request_handler ::
  "int \<Rightarrow> cleanup_op \<Rightarrow> request_handler \<Rightarrow> client_id \<Rightarrow> request_id \<Rightarrow> request \<Rightarrow>
   coordinator \<Rightarrow> (exn + unit) \<times> coordinator" where
  "execute_request_handler PROTOCOL_VERSION_MISMATCH cleanup handler client_id request_id
       request s =
     (case execute_request_handler_try PROTOCOL_VERSION_MISMATCH cleanup handler client_id
             request_id request s of
        (Inl e, s1) \<Rightarrow>
          if is_Exception e
          then send_error client_id request_id (internal_error request) s1
          else (Inl e, s1)
      | (Inr u, s1) \<Rightarrow> (Inr (), s1))"

definition route_request ::
  "client_id \<Rightarrow> request_id \<Rightarrow> request \<Rightarrow> coordinator \<Rightarrow> (exn + unit) \<times> coordinator" where
  "route_request client_id request_id request s =
     (case map_of (request_handlers s) (method request) of
        None \<Rightarrow>
          send_error client_id request_id
            \<lparr>code = METHOD_NOT_FOUND,
             message = ''No handler for method: '' @ method request,
             data = None\<rparr> s
      | Some handler \<Rightarrow>
          (case create_task (RequestTask handler client_id request_id request) s of
             (tid, s1) \<Rightarrow>
               (case track_request_from_client client_id request_id request tid s1 of
                  (Inl e, s2) \<Rightarrow> (Inl e, s2)
                | (Inr u, s2) \<Rightarrow> (Inr (), add_done_callback tid (client_id, request_id) s2))))"

definition handle_request ::
  "client_id \<Rightarrow> payload \<Rightarrow> coordinator \<Rightarrow> (exn + unit) \<times> coordinator" where
  "handle_request client_id payload s =
     (case p_id payload of
        None \<Rightarrow> (Inl (KeyError ''id''), s)
      | Some request_id \<Rightarrow>
          (let s1 = ensure_client_registered client_id s
           in case parse_request (parser s1) payload of
                Inl err \<Rightarrow> send_error client_id request_id err s1
              | Inr request \<Rightarrow> route_request client_id request_id request s1))"

subsection \<open>Handling notifications and responses\<close>

definition handle_notification ::
  "client_id \<Rightarrow> payload \<Rightarrow> coordinator \<Rightarrow> (exn + unit) \<times> coordinator" where
  "handle_notification client_id payload s =
     (case p_method payload of
        None \<Rightarrow> (Inl (KeyError ''method''), s)
      | Some m \<Rightarrow>
          (case parse_notification (parser s) payload of
             None \<Rightarrow> (Inr (), s)
           | Some notification \<Rightarrow>
               (case map_of (notification_handlers s) m of
                  None \<Rightarrow> (Inr (), print (UnknownNotification m client_id) s)
                | Some handler \<Rightarrow>
                    (Inr (),
                     snd (create_task (NotificationTask handler client_id notification) s)))))"

definition handle_response ::
  "client_id \<Rightarrow> payload \<Rightarrow> coordinator \<Rightarrow> (exn + unit) \<times> coordinator" where
  "handle_response client_id payload s =
     (case p_id payload of
        None \<Rightarrow> (Inl (KeyError ''id''), s)
      | Some request_id \<Rightarrow>
          (case get_request_to_client client_id request_id s of
             None \<Rightarrow> (Inr (), print (NoPendingRequest request_id client_id) s)
           | Some (original_request, future) \<Rightarrow>
               (Inr (),
                resolve_request_to_client client_id request_id
                  (parse_response (parser s) payload original_request) s)))"

definition cancel_request_from_client ::
  "client_id \<Rightarrow> request_id \<Rightarrow> coordinator \<Rightarrow> bool \<times> coordinator" where
  "cancel_request_from_client client_id request_id s =
     (case untrack_request_from_client client_id request_id s of
        (None, s1) \<Rightarrow> (False, s1)
      | (Some (request, tid), s1) \<Rightarrow> cancel_task tid s1)"

subsection \<open>The message loop\<close>

definition route_client_message ::
  "client_message \<Rightarrow> coordinator \<Rightarrow> (exn + unit) \<times> coordinator" where
  "route_client_message client_message s =
     (let payload = msg_payload client_message;
          client_id = msg_client_id client_message
      in if is_valid_request (parser s) payload then handle_request client_id payload s
         else if is_valid_notification (parser s) payload
              then handle_notification client_id payload s
         else if is_valid_response (parser s) payload
              then handle_response client_id payload s
         else (Inr (), print (UnknownMessageType client_id) s))"

text \<open>
  One iteration of \<^verbatim>\<open>_message_loop\<close>: an \<^verbatim>\<open>Exception\<close> raised while routing is printed
  and the loop continues (\<open>Inr\<close>); anything else ends the loop task (\<open>Inl\<close>).
\<close>

definition message_loop_step ::
  "client_message \<Rightarrow> coordinator \<Rightarrow> (exn + unit) \<times> coordinator" where
  "message_loop_step client_message s =
     (case route_client_message client_message s of
        (Inl e, s1) \<Rightarrow>
          if is_Exception e
          then (Inr (), print (ErrorHandlingMessage (msg_client_id client_message) e) s1)
          else (Inl e, s1)
      | (Inr u, s1) \<Rightarrow> (Inr (), s1))"

subsection \<open>Running a task\<close>

text \<open>
  What the event loop does when the coroutine of task \<open>tid\<close> has ended with outcome \<open>r\<close>:
  the task is cancelled if the coroutine raised \<^verbatim>\<open>CancelledError\<close> or returned after the
  task was asked to cancel, failed with the exception otherwise raised, finished else;
  then the done-callbacks run. An exception that left the coroutine stays in the failed
  task; the coordinator never reads it.
\<close>

definition finish_task :: "nat \<Rightarrow> exn + unit \<Rightarrow> coordinator \<Rightarrow> coordinator" where
  "finish_task tid r s =
     (if tid < length (tasks s)
      then (let t = tasks s ! tid;
                st = (case r of
                        Inl e \<Rightarrow> if e = CancelledError then Cancelled else Failed e
                      | Inr u \<Rightarrow> if status t = Cancelled then Cancelled else Finished);
                s1 = s\<lparr>tasks := (tasks s)[tid := t\<lparr>status := st\<rparr>]\<rparr>
            in fold (\<lambda>(client_id, request_id) s'.
                       snd (untrack_request_from_client client_id request_id s'))
                 (done_callbacks t) s1)
      else s)"

text \<open>
  A scheduler step: the pending task \<open>tid\<close> runs to its end. A handler is a callback
  outside the coordinator; its call is one step.
\<close>

definition run_task :: "int \<Rightarrow> nat \<Rightarrow> coordinator \<Rightarrow> coordinator" where
  "run_task PROTOCOL_VERSION_MISMATCH tid s =
     (if tid < length (tasks s) \<and> status (tasks s ! tid) = Pending
      then (case body (tasks s ! tid) of
              RequestTask handler client_id request_id request \<Rightarrow>
                (case execute_request_handler PROTOCOL_VERSION_MISMATCH cleanup_client_op
                        handler client_id request_id request s of
                   (r, s1) \<Rightarrow> finish_task tid r s1)
            | NotificationTask handler client_id notification \<Rightarrow>
                finish_task tid
                  (case handler client_id notification of
                     None \<Rightarrow> Inr ()
                   | Some e \<Rightarrow> Inl e) s)
      else s)"

subsection \<open>Sending notifications and requests\<close>

definition send_notification ::
  "client_id \<Rightarrow> notification \<Rightarrow> coordinator \<Rightarrow> (exn + unit) \<times> coordinator" where
  "send_notification client_id notification s =
     (if \<not> running s
      then (Inl (RuntimeError ''Cannot send notification: coordinator is not running''), s)
      else transport_send client_id (JSONRPCNotification notification) s)"

definition handle_request_timeout ::
  "client_id \<Rightarrow> request_id \<Rightarrow> coordinator \<Rightarrow> (exn + unit) \<times> coordinator" where
  "handle_request_timeout client_id request_id s =
     (case send_notification client_id
             (CancelledNotification request_id (Some ''Request timed out'')) s of
        (Inl e, s1) \<Rightarrow>
          if is_Exception e
          then (Inr (), print (ErrorSendingCancellation client_id e) s1)
          else (Inl e, s1)
      | (Inr u, s1) \<Rightarrow> (Inr (), s1))"

text \<open>
  What \<^verbatim>\<open>asyncio.wait_for(future, timeout)\<close> gives the caller when it wakes up: the
  value the completion handle was resolved with, or an exception (\<open>TimeoutError\<close> when the
  timeout fired, \<open>CancelledError\<close> when the wait was cancelled). On a timeout or a
  cancellation \<^verbatim>\<open>wait_for\<close> cancels the handle it was waiting for.
\<close>

datatype wait_outcome = WaitReturns result_or_error | WaitRaises exn

definition wait_for ::
  "nat \<Rightarrow> wait_outcome \<Rightarrow> coordinator \<Rightarrow> (exn + result_or_error) \<times> coordinator" where
  "wait_for fid w s =
     (case w of
        WaitReturns v \<Rightarrow> (Inr v, s)
      | WaitRaises e \<Rightarrow>
          (Inl e,
           if e = TimeoutError \<or> e = CancelledError
           then resolve_future fid CancellationError s
           else s))"

text \<open>
  Lines 338 to 346 of \<^verbatim>\<open>send_request\<close>: the completion handle is allocated and tracked
  under the fresh id \<^verbatim>\<open>str(uuid.uuid4())\<close>, which is the argument \<open>uuid\<close>.
\<close>

definition send_request_prepare ::
  "client_id \<Rightarrow> request \<Rightarrow> string \<Rightarrow> coordinator \<Rightarrow> (exn + nat) \<times> coordinator" where
  "send_request_prepare client_id request uuid s =
     (case new_future s of
        (future, s1) \<Rightarrow>
          (case track_request_to_client client_id (IdStr uuid) request future
                  (ensure_client_registered client_id s1) of
             (Inl e, s3) \<Rightarrow> (Inl e, s3)
           | (Inr u, s3) \<Rightarrow> (Inr future, s3)))"

text \<open>
  How the \<^verbatim>\<open>try\<close> statement of \<^verbatim>\<open>send_request\<close> is left with the outcome \<open>r\<close> of its
  body: \<^verbatim>\<open>except asyncio.TimeoutError\<close> notifies the peer and raises the timeout again,
  and \<^verbatim>\<open>finally\<close> untracks the outbound entry.
\<close>

definition send_request_exit ::
  "client_id \<Rightarrow> request_id \<Rightarrow> (exn + result_or_error) \<times> coordinator \<Rightarrow>
   (exn + result_or_error) \<times> coordinator" where
  "send_request_exit client_id request_id rs =
     (case rs of
        (r, s) \<Rightarrow>
          (case (if r = Inl TimeoutError
                 then (case handle_request_timeout client_id request_id s of
                         (Inl e, s1) \<Rightarrow> (Inl e, s1)
                       | (Inr u, s1) \<Rightarrow> (Inl TimeoutError, s1))
                 else (r, s)) of
             (r1, s1) \<Rightarrow> (r1, snd (untrack_request_to_client client_id request_id s1))))"

text \<open>
  \<^verbatim>\<open>send_request(client_id, request, timeout)\<close>. While the caller is suspended in
  \<^verbatim>\<open>wait_for\<close> the rest of the system runs: \<open>between\<close> takes the state at the suspension
  to the state at the wake-up, and \<open>w\<close> is what \<^verbatim>\<open>wait_for\<close> then gives.
\<close>

definition send_request ::
  "client_id \<Rightarrow> request \<Rightarrow> string \<Rightarrow> (coordinator \<Rightarrow> coordinator) \<Rightarrow> wait_outcome \<Rightarrow>
   coordinator \<Rightarrow> (exn + result_or_error) \<times> coordinator" where
  "send_request client_id request uuid between w s =
     (if \<not> running s
      then (Inl (RuntimeError ''Cannot send request: coordinator is not running''), s)
      else (case send_request_prepare client_id request uuid s of
              (Inl e, s3) \<Rightarrow> (Inl e, s3)
            | (Inr future, s3) \<Rightarrow>
                send_request_exit client_id (IdStr uuid)
                  (case transport_send client_id (JSONRPCRequest (IdStr uuid) request) s3 of
                     (Inl e, s4) \<Rightarrow> (Inl e, s4)
                   | (Inr u, s4) \<Rightarrow> wait_for future w (between s4))))"

text \<open>
  The state in which a call of \<^verbatim>\<open>send_request\<close> is suspended in \<^verbatim>\<open>wait_for\<close>: the entry
  is tracked and the request has been handed to the transport.
\<close>

definition send_request_suspended ::
  "client_id \<Rightarrow> request \<Rightarrow> string \<Rightarrow> coordinator \<Rightarrow> coordinator" where
  "send_request_suspended client_id request uuid s =
     snd (transport_send client_id (JSONRPCRequest (IdStr uuid) request)
            (snd (send_request_prepare client_id request uuid s)))"

subsection \<open>A parser for the worked examples\<close>

text \<open>
  The theorems below hold for every parser. The examples use this one: it classifies a
  payload by the fields that are present, accepts every request method, and knows the
  notification methods listed in \<open>known\<close>.
\<close>

definition example_parser :: "string list \<Rightarrow> parser" where
  "example_parser known =
     \<lparr>is_valid_request = (\<lambda>p. p_method p \<noteq> None \<and> p_id p \<noteq> None),
      is_valid_notification = (\<lambda>p. p_method p \<noteq> None \<and> p_id p = None),
      is_valid_response =
        (\<lambda>p. p_method p = None \<and> p_id p \<noteq> None \<and> (p_result p \<noteq> None \<or> p_error p \<noteq> None)),
      parse_request =
        (\<lambda>p. case p_method p of
                None \<Rightarrow> Inl \<lparr>code = - 32600, message = ''Invalid request'', data = None\<rparr>
              | Some m \<Rightarrow>
                  Inr \<lparr>method = m,
                       params = (case p_params p of None \<Rightarrow> JNull | Some j \<Rightarrow> j)\<rparr>),
      parse_notification =
        (\<lambda>p. case p_method p of
                None \<Rightarrow> None
              | Some m \<Rightarrow>
                  if m \<in> set known
                  then Some (OtherNotification m
                               (case p_params p of None \<Rightarrow> JNull | Some j \<Rightarrow> j))
                  else None),
      parse_response =
        (\<lambda>p request. case p_result p of
                        Some j \<Rightarrow> IsResult (Result j)
                      | None \<Rightarrow>
                          IsError \<lparr>code = - 32603, message = ''error'',
                                   data = map_option JsonData (p_error p)\<rparr>)\<rparr>"

text \<open>
  A started coordinator for the examples: client \<open>c1\<close> is registered, a handler for
  \<open>tools/list\<close> is registered, and the transport follows the fault script \<open>fs\<close>.
\<close>

definition list_tools_handler :: request_handler where
  "list_tools_handler client_id request =
     Returns (IsResult (Result (JObj [(''tools'', JArr [])])))"

definition example_coordinator :: "bool list \<Rightarrow> coordinator" where
  "example_coordinator fs =
     register_client ''c1''
       (start (register_request_handler ''tools/list'' list_tools_handler
                 (init \<lparr>calls = [], delivered = [], faults = fs\<rparr> []
                    (example_parser [''notifications/progress'']))))"

definition list_tools_request :: request where
  "list_tools_request = \<lparr>method = ''tools/list'', params = JNull\<rparr>"

text \<open>The payload \<^verbatim>\<open>{"jsonrpc": "2.0", "id": 7, "method": "tools/list"}\<close> from client \<open>c1\<close>.\<close>

definition list_tools_message :: client_message where
  "list_tools_message =
     \<lparr>msg_client_id = ''c1'',
      msg_payload = \<lparr>p_id = Some (IdInt 7), p_method = Some ''tools/list'', p_params = None,
                     p_result = None, p_error = None\<rparr>\<rparr>"

text \<open>
  The example coordinator at work: request \<open>7\<close> of client \<open>c1\<close> is executing in its
  task, and a call of \<^verbatim>\<open>send_request\<close> to the same client is waiting for its answer.
\<close>

definition busy_coordinator :: coordinator where
  "busy_coordinator =
     send_request_suspended ''c1'' list_tools_request ''u1''
       (snd (message_loop_step list_tools_message (example_coordinator [])))"

section \<open>The initialize handshake of the client session\<close>

text \<open>
  Modelled from the spec: the client session (\<^verbatim>\<open>conduit.client.session\<close>) is not part of
  the sources at hand; only its tests are. The model follows section 4.5 and the design
  note on the idempotent \<^verbatim>\<open>initialize\<close> of the specification: a shared in-progress
  handshake that concurrent calls attach to, and a cached result afterwards. The field
  names are those the tests read (\<^verbatim>\<open>_initializing\<close>, \<^verbatim>\<open>_initialize_result\<close>,
  \<^verbatim>\<open>_pending_requests\<close>, \<^verbatim>\<open>_running\<close>, the transport's \<^verbatim>\<open>client_sent_messages\<close> and
  \<^verbatim>\<open>closed\<close>). \<open>initializing\<close> holds the callers that wait for the handshake in progress,
  \<open>returned\<close> what each finished call gave its caller.
\<close>

record initialize_result =
  protocol_version :: string
  capabilities :: json
  server_info :: json

record session =
  supported_version :: string
  session_running :: bool
  closed :: bool
  client_sent_messages :: "frame list"
  pending_requests :: "(request_id \<times> request) list"
  initializing :: "nat list option"
  initialize_result :: "initialize_result option"
  returned :: "(nat \<times> (exn + initialize_result)) list"

definition new_session :: "string \<Rightarrow> session" where
  "new_session v =
     \<lparr>supported_version = v, session_running = True, closed = False,
      client_sent_messages = [], pending_requests = [], initializing = None,
      initialize_result = None, returned = []\<rparr>"

definition initialize_request :: request where
  "initialize_request = \<lparr>method = ''initialize'', params = JNull\<rparr>"

definition initialized_notification :: notification where
  "initialized_notification = OtherNotification ''notifications/initialized'' JNull"

text \<open>
  Modelled from the spec: a call of \<^verbatim>\<open>initialize()\<close> by \<open>caller\<close>. ``Concurrent or
  subsequent calls return the same result without resending'': a call finds the cached
  result, or attaches to the handshake in progress, or starts the handshake by sending the
  \<^verbatim>\<open>initialize\<close> request under the id \<open>uuid\<close> the facade allocates.
\<close>

definition initialize :: "nat \<Rightarrow> string \<Rightarrow> session \<Rightarrow> session" where
  "initialize caller uuid s =
     (case initialize_result s of
        Some res \<Rightarrow> s\<lparr>returned := returned s @ [(caller, Inr res)]\<rparr>
      | None \<Rightarrow>
          (case initializing s of
             Some waiting \<Rightarrow> s\<lparr>initializing := Some (waiting @ [caller])\<rparr>
           | None \<Rightarrow>
               s\<lparr>client_sent_messages :=
                    client_sent_messages s @ [JSONRPCRequest (IdStr uuid) initialize_request],
                  pending_requests :=
                    AList.update (IdStr uuid) initialize_request (pending_requests s),
                  initializing := Some [caller]\<rparr>))"

text \<open>
  Modelled from the spec: ``tears down the session'': the session stops, the transport is
  closed, the pending-requests table ends empty, and every caller that waited for the
  handshake gets the failure.
\<close>

definition fail_initialize :: "exn \<Rightarrow> session \<Rightarrow> session" where
  "fail_initialize e s =
     (case initializing s of
        None \<Rightarrow> s
      | Some waiting \<Rightarrow>
          s\<lparr>session_running := False, closed := True, pending_requests := [],
            initializing := None,
            returned := returned s @ map (\<lambda>caller. (caller, Inl e)) waiting\<rparr>)"

text \<open>
  Modelled from the spec: the server's result for the handshake in progress arrives. ``On
  Result: verifies protocolVersion equals the client's supported version; on mismatch,
  tears down the session and fails with a protocol-version-mismatch error. On match, sends
  an initialized notification and caches the result.''
\<close>

definition receive_initialize_result :: "initialize_result \<Rightarrow> session \<Rightarrow> session" where
  "receive_initialize_result res s =
     (case initializing s of
        None \<Rightarrow> s
      | Some waiting \<Rightarrow>
          if protocol_version res = supported_version s
          then s\<lparr>client_sent_messages :=
                    client_sent_messages s @ [JSONRPCNotification initialized_notification],
                  pending_requests := [],
                  initializing := None,
                  initialize_result := Some res,
                  returned := returned s @ map (\<lambda>caller. (caller, Inr res)) waiting\<rparr>
          else fail_initialize (ValueError ''Protocol version mismatch'') s)"

text \<open>The calls of \<^verbatim>\<open>initialize()\<close> by the callers \<open>ks\<close>, one after the other.\<close>

definition initialize_calls :: "nat list \<Rightarrow> string \<Rightarrow> session \<Rightarrow> session" where
  "initialize_calls ks uuid s = fold (\<lambda>caller. initialize caller uuid) ks s"

text \<open>The \<^verbatim>\<open>initialize\<close> request frames among the messages the client sent.\<close>

definition initialize_frames :: "session \<Rightarrow> frame list" where
  "initialize_frames s =
     filter (\<lambda>f. case f of
                   JSONRPCRequest request_id request \<Rightarrow> method request = ''initialize''
                 | _ \<Rightarrow> False)
       (client_sent_messages s)"

section \<open>Properties\<close>

subsection \<open>What each operation leaves alone\<close>

lemma transport_send_accepted:
  "\<not> (faults (transport s) \<noteq> [] \<and> hd (faults (transport s))) \<Longrightarrow>
   transport_send c f s =
     (Inr (), s\<lparr>transport := (transport s)\<lparr>calls := calls (transport s) @ [(c, f)],
          delivered := delivered (transport s) @ [(c, f)], faults := tl (faults (transport s))\<rparr>\<rparr>)"
  by (simp add: transport_send_def Let_def)

lemma transport_send_refused:
  "faults (transport s) \<noteq> [] \<and> hd (faults (transport s)) \<Longrightarrow>
   transport_send c f s =
     (Inl (ConnectionError ''send failed''),
      s\<lparr>transport := (transport s)\<lparr>calls := calls (transport s) @ [(c, f)],
          faults := tl (faults (transport s))\<rparr>\<rparr>)"
  by (simp add: transport_send_def Let_def)

lemma cancel_task_frame:
  "clients (snd (cancel_task t s)) = clients s"
  "transport (snd (cancel_task t s)) = transport s"
  "message_loop_task (snd (cancel_task t s)) = message_loop_task s"
  "printed (snd (cancel_task t s)) = printed s"
  by (simp_all add: cancel_task_def)

lemma resolve_future_frame:
  "clients (resolve_future f v s) = clients s"
  "transport (resolve_future f v s) = transport s"
  "message_loop_task (resolve_future f v s) = message_loop_task s"
  "printed (resolve_future f v s) = printed s"
  by (simp_all add: resolve_future_def)

lemma fold_cancel_frame:
  "clients (fold (\<lambda>(request_id, request, tid) s'. snd (cancel_task tid s')) xs s) = clients s
   \<and> transport (fold (\<lambda>(request_id, request, tid) s'. snd (cancel_task tid s')) xs s) = transport s
   \<and> message_loop_task (fold (\<lambda>(request_id, request, tid) s'. snd (cancel_task tid s')) xs s) = message_loop_task s
   \<and> printed (fold (\<lambda>(request_id, request, tid) s'. snd (cancel_task tid s')) xs s) = printed s"
  by (induction xs arbitrary: s) (auto simp: cancel_task_frame)

lemma fold_resolve_frame:
  "clients (fold (\<lambda>(request_id, request, fid) s'. resolve_future fid v s') xs s) = clients s
   \<and> transport (fold (\<lambda>(request_id, request, fid) s'. resolve_future fid v s') xs s) = transport s
   \<and> message_loop_task (fold (\<lambda>(request_id, request, fid) s'. resolve_future fid v s') xs s) = message_loop_task s
   \<and> printed (fold (\<lambda>(request_id, request, fid) s'. resolve_future fid v s') xs s) = printed s"
  by (induction xs arbitrary: s) (auto simp: resolve_future_frame)

lemma cleanup_client_clients:
  "clients (cleanup_client c s) = AList.delete c (clients s)"
proof (cases "get_client c s")
  case None
  then have "c \<notin> fst ` set (clients s)"
    by (simp add: get_client_def map_of_eq_None_iff)
  with None show ?thesis by (simp add: cleanup_client_def)
next
  case (Some cs)
  then show ?thesis
    by (simp add: cleanup_client_def Let_def fold_cancel_frame fold_resolve_frame)
qed

lemma cleanup_client_frame:
  "transport (cleanup_client c s) = transport s"
  "message_loop_task (cleanup_client c s) = message_loop_task s"
  "printed (cleanup_client c s) = printed s"
  by (simp_all add: cleanup_client_def Let_def fold_cancel_frame fold_resolve_frame
      split: option.splits)

lemma get_client_cleanup_client:
  "get_client c' (cleanup_client c s) = (if c' = c then None else get_client c' s)"
  by (simp add: get_client_def cleanup_client_clients delete_conv')

lemma fold_cleanup_clients:
  "clients (fold cleanup_client ks s) = fold AList.delete ks (clients s)"
  by (induction ks arbitrary: s) (simp_all add: cleanup_client_clients)

lemma fold_cleanup_frame:
  "transport (fold cleanup_client ks s) = transport s
   \<and> message_loop_task (fold cleanup_client ks s) = message_loop_task s
   \<and> printed (fold cleanup_client ks s) = printed s"
  by (induction ks arbitrary: s) (simp_all add: cleanup_client_frame)

lemma keys_fold_delete:
  "fst ` set (fold AList.delete ks al) = fst ` set al - set ks"
proof (induction ks arbitrary: al)
  case Nil
  show ?case by simp
next
  case (Cons k ks)
  have "fst ` set (AList.delete k al) = fst ` set al - {k}"
    by (auto simp: AList.delete_eq image_iff)
  with Cons show ?case by auto
qed

lemma cleanup_all_clients_clients:
  "clients (cleanup_all_clients s) = []"
proof -
  have "fst ` set (clients (cleanup_all_clients s)) = {}"
    by (simp add: cleanup_all_clients_def fold_cleanup_clients keys_fold_delete)
  then show ?thesis by simp
qed

lemma cleanup_all_clients_frame:
  "transport (cleanup_all_clients s) = transport s"
  "message_loop_task (cleanup_all_clients s) = message_loop_task s"
  "printed (cleanup_all_clients s) = printed s"
  by (simp_all add: cleanup_all_clients_def fold_cleanup_frame)

lemma untrack_from_frame:
  "transport (snd (untrack_request_from_client c r s)) = transport s"
  "message_loop_task (snd (untrack_request_from_client c r s)) = message_loop_task s"
  "printed (snd (untrack_request_from_client c r s)) = printed s"
  "tasks (snd (untrack_request_from_client c r s)) = tasks s"
  by (simp_all add: untrack_request_from_client_def split: option.splits)

lemma fold_untrack_from_frame:
  "transport (fold (\<lambda>(client_id, request_id) s'. snd (untrack_request_from_client client_id request_id s')) cbs s) = transport s
 \<and> message_loop_task (fold (\<lambda>(client_id, request_id) s'. snd (untrack_request_from_client client_id request_id s')) cbs s) = message_loop_task s
 \<and> printed (fold (\<lambda>(client_id, request_id) s'. snd (untrack_request_from_client client_id request_id s')) cbs s) = printed s
 \<and> tasks (fold (\<lambda>(client_id, request_id) s'. snd (untrack_request_from_client client_id request_id s')) cbs s) = tasks s"
  by (induction cbs arbitrary: s) (auto simp: untrack_from_frame)

lemma finish_task_frame:
  "transport (finish_task tid r s) = transport s"
  "message_loop_task (finish_task tid r s) = message_loop_task s"
  by (simp_all add: finish_task_def Let_def print_def fold_untrack_from_frame split: sum.splits)

lemma transport_send_message_loop_task:
  "message_loop_task (snd (transport_send c f s)) = message_loop_task s"
  by (simp add: transport_send_def Let_def)


lemma execute_request_handler_message_loop_task:
  "message_loop_task (snd (execute_request_handler pvm cleanup_client_op h c rid req s)) = message_loop_task s"
proof (cases "h c req")
  case (Raises e)
  then show ?thesis
    by (simp add: execute_request_handler_def execute_request_handler_try_def send_error_def
        transport_send_message_loop_task)
next
  case (Returns v)
  show ?thesis
  proof (cases "faults (transport s) \<noteq> [] \<and> hd (faults (transport s))")
    case True
    then show ?thesis using Returns
      by (simp add: execute_request_handler_def execute_request_handler_try_def send_error_def
          transport_send_refused transport_send_message_loop_task)
  next
    case False
    then show ?thesis using Returns
      by (cases v) (simp_all add: execute_request_handler_def execute_request_handler_try_def
          transport_send_accepted cleanup_client_op_def cleanup_client_frame)
  qed
qed

lemma run_task_message_loop_task:
  "message_loop_task (run_task pvm tid s) = message_loop_task s"
proof (cases "tid < length (tasks s) \<and> status (tasks s ! tid) = Pending")
  case False
  then show ?thesis by (auto simp: run_task_def)
next
  case True
  show ?thesis
  proof (cases "body (tasks s ! tid)")
    case (RequestTask h c rid req)
    obtain r s1 where e: "execute_request_handler pvm cleanup_client_op h c rid req s = (r, s1)"
      by (cases "execute_request_handler pvm cleanup_client_op h c rid req s")
    have "message_loop_task s1 = message_loop_task s"
      using execute_request_handler_message_loop_task [of pvm h c rid req s] e by simp
    with True RequestTask e show ?thesis
      by (simp add: run_task_def finish_task_frame)
  next
    case (NotificationTask h c n)
    with True show ?thesis
      by (simp add: run_task_def finish_task_frame)
  qed
qed

subsection \<open>Outbound requests\<close>

lemma get_client_ensure_client_registered:
  "get_client c (ensure_client_registered c s) \<noteq> None"
  by (simp add: ensure_client_registered_def register_client_def get_client_def update_conv')

lemma ensure_client_registered_frame:
  "transport (ensure_client_registered c s) = transport s"
  "message_loop_task (ensure_client_registered c s) = message_loop_task s"
  "futures (ensure_client_registered c s) = futures s"
  by (simp_all add: ensure_client_registered_def register_client_def)

lemma send_request_prepare_tracks:
  "\<exists>s3. send_request_prepare c req uuid s = (Inr (length (futures s)), s3)
      \<and> transport s3 = transport s
      \<and> message_loop_task s3 = message_loop_task s
      \<and> get_request_to_client c (IdStr uuid) s3 = Some (req, length (futures s))"
proof -
  obtain cs where cs: "get_client c (ensure_client_registered c (snd (new_future s))) = Some cs"
    using get_client_ensure_client_registered [of c "snd (new_future s)"] by auto
  show ?thesis
    using cs
    by (simp add: send_request_prepare_def new_future_def track_request_to_client_def
        get_request_to_client_def get_client_def update_conv' ensure_client_registered_frame)
qed

lemma untrack_request_to_client_removes:
  "get_request_to_client c rid (snd (untrack_request_to_client c rid s)) = None"
  by (simp add: untrack_request_to_client_def get_request_to_client_def get_client_def
      update_conv' delete_conv' split: option.splits)

lemma untrack_request_to_client_frame:
  "transport (snd (untrack_request_to_client c rid s)) = transport s"
  "message_loop_task (snd (untrack_request_to_client c rid s)) = message_loop_task s"
  by (simp_all add: untrack_request_to_client_def split: option.splits)

lemma send_request_exit_untracks:
  "get_request_to_client c rid (snd (send_request_exit c rid rs)) = None"
  by (simp add: send_request_exit_def untrack_request_to_client_removes split: prod.splits)

lemma handle_request_timeout_returns:
  "fst (handle_request_timeout c rid s) = Inr ()"
  by (auto simp: handle_request_timeout_def send_notification_def transport_send_def Let_def
      split: prod.splits sum.splits if_splits)

lemma handle_request_timeout_running:
  "running s \<Longrightarrow>
   calls (transport (snd (handle_request_timeout c rid s))) =
     calls (transport s) @
       [(c, JSONRPCNotification (CancelledNotification rid (Some ''Request timed out'')))]
   \<and> (\<not> (faults (transport s) \<noteq> [] \<and> hd (faults (transport s))) \<longrightarrow>
        delivered (transport (snd (handle_request_timeout c rid s))) =
          delivered (transport s) @
            [(c, JSONRPCNotification (CancelledNotification rid (Some ''Request timed out'')))])"
  by (auto simp: handle_request_timeout_def send_notification_def transport_send_def Let_def
      print_def)

lemma send_request_running:
  assumes "running s"
  shows "send_request c req uuid between w s =
     send_request_exit c (IdStr uuid)
       (case transport_send c (JSONRPCRequest (IdStr uuid) req)
               (snd (send_request_prepare c req uuid s)) of
          (Inl e, s4) \<Rightarrow> (Inl e, s4)
        | (Inr u, s4) \<Rightarrow> wait_for (length (futures s)) w (between s4))"
proof -
  obtain s3 where "send_request_prepare c req uuid s = (Inr (length (futures s)), s3)"
    using send_request_prepare_tracks [of c req uuid s] by blast
  with assms show ?thesis by (simp add: send_request_def)
qed

subsection \<open>Lifecycle lemmas\<close>

lemma lookups_no_clients:
  "clients s = [] \<Longrightarrow>
   get_request_from_client c rid s = None \<and> get_request_to_client c rid s = None"
  by (simp add: get_request_from_client_def get_request_to_client_def get_client_def)

lemma on_message_loop_done_result:
  "clients (on_message_loop_done s) = [] \<and> message_loop_task (on_message_loop_done s) = None"
  by (simp add: on_message_loop_done_def cleanup_all_clients_clients cleanup_all_clients_frame)

lemma resolve_request_to_client_message_loop_task:
  "message_loop_task (resolve_request_to_client c rid v s) = message_loop_task s"
  by (simp add: resolve_request_to_client_def untrack_request_to_client_def resolve_future_frame
      split: prod.splits option.splits)

lemma route_client_message_message_loop_task:
  "message_loop_task (snd (route_client_message m s)) = message_loop_task s"
  by (simp add: route_client_message_def handle_request_def handle_notification_def
      handle_response_def route_request_def send_error_def transport_send_message_loop_task
      ensure_client_registered_frame create_task_def track_request_from_client_def
      add_done_callback_def print_def resolve_request_to_client_message_loop_task Let_def
      split: option.splits sum.splits prod.splits)

lemma message_loop_step_running:
  "running (snd (message_loop_step m s)) = running s"
  using route_client_message_message_loop_task [of m s]
  by (cases "route_client_message m s")
    (auto simp: message_loop_step_def running_def print_def split: sum.splits)

subsection \<open>What cleanup does to tasks and completion handles\<close>

lemma cancel_task_length:
  "length (tasks (snd (cancel_task t s))) = length (tasks s)"
  by (simp add: cancel_task_def)

lemma cancel_task_status:
  "tid < length (tasks s) \<Longrightarrow>
   status (tasks (snd (cancel_task t s)) ! tid) =
     (if t = tid \<and> status (tasks s ! tid) = Pending then Cancelled
      else status (tasks s ! tid))"
  by (simp add: cancel_task_def nth_list_update)

lemma fold_cancel_length:
  "length (tasks (fold (\<lambda>(request_id, request, tid) s'. snd (cancel_task tid s')) xs s))
     = length (tasks s)"
  by (induction xs arbitrary: s) (auto simp: cancel_task_length)

lemma fold_cancel_keeps:
  "tid < length (tasks s) \<Longrightarrow> status (tasks s ! tid) \<noteq> Pending \<Longrightarrow>
   status (tasks (fold (\<lambda>(request_id, request, tid) s'. snd (cancel_task tid s')) xs s) ! tid)
     = status (tasks s ! tid)"
  by (induction xs arbitrary: s) (auto simp: cancel_task_length cancel_task_status)

lemma fold_cancel_pending:
  "tid < length (tasks s) \<Longrightarrow> status (tasks s ! tid) = Pending \<Longrightarrow>
   status (tasks (fold (\<lambda>(request_id, request, tid) s'. snd (cancel_task tid s')) xs s) ! tid)
     = (if tid \<in> (snd \<circ> snd) ` set xs then Cancelled else Pending)"
proof (induction xs arbitrary: s)
  case Nil
  then show ?case by simp
next
  case (Cons x xs)
  obtain rid req t where x: "x = (rid, req, t)" by (cases x) auto
  show ?case
  proof (cases "t = tid")
    case True
    have "status (tasks (snd (cancel_task t s)) ! tid) = Cancelled"
      using Cons.prems True by (simp add: cancel_task_status)
    then have "status (tasks (fold (\<lambda>(request_id, request, tid) s'. snd (cancel_task tid s')) xs
        (snd (cancel_task t s))) ! tid) = Cancelled"
      using fold_cancel_keeps [of tid "snd (cancel_task t s)" xs] Cons.prems(1)
      by (simp add: cancel_task_length)
    then show ?thesis using True x by simp
  next
    case False
    have "status (tasks (snd (cancel_task t s)) ! tid) = Pending"
      using Cons.prems False by (simp add: cancel_task_status)
    from Cons.IH [OF _ this] Cons.prems(1) False x show ?thesis
      by (simp add: cancel_task_length)
  qed
qed

lemma resolve_future_tasks:
  "tasks (resolve_future f v s) = tasks s"
  by (simp add: resolve_future_def)

lemma fold_resolve_tasks:
  "tasks (fold (\<lambda>(request_id, request, fid) s'. resolve_future fid v s') xs s) = tasks s"
  by (induction xs arbitrary: s) (auto simp: resolve_future_tasks)

lemma cancel_task_futures:
  "futures (snd (cancel_task t s)) = futures s"
  by (simp add: cancel_task_def)

lemma fold_cancel_futures:
  "futures (fold (\<lambda>(request_id, request, tid) s'. snd (cancel_task tid s')) xs s) = futures s"
  by (induction xs arbitrary: s) (auto simp: cancel_task_futures)

lemma resolve_future_length:
  "length (futures (resolve_future f v s)) = length (futures s)"
  by (simp add: resolve_future_def)

lemma resolve_future_nth:
  "fid < length (futures s) \<Longrightarrow>
   futures (resolve_future f v s) ! fid =
     (if f = fid \<and> futures s ! fid = Unresolved then v else futures s ! fid)"
  by (simp add: resolve_future_def nth_list_update)

lemma fold_resolve_length:
  "length (futures (fold (\<lambda>(request_id, request, fid) s'. resolve_future fid v s') xs s))
     = length (futures s)"
  by (induction xs arbitrary: s) (auto simp: resolve_future_length)

lemma fold_resolve_keeps:
  "fid < length (futures s) \<Longrightarrow> futures s ! fid \<noteq> Unresolved \<Longrightarrow>
   futures (fold (\<lambda>(request_id, request, fid) s'. resolve_future fid v s') xs s) ! fid
     = futures s ! fid"
  by (induction xs arbitrary: s) (auto simp: resolve_future_length resolve_future_nth)

lemma fold_resolve_unresolved:
  "fid < length (futures s) \<Longrightarrow> futures s ! fid = Unresolved \<Longrightarrow> v \<noteq> Unresolved \<Longrightarrow>
   futures (fold (\<lambda>(request_id, request, fid) s'. resolve_future fid v s') xs s) ! fid
     = (if fid \<in> (snd \<circ> snd) ` set xs then v else Unresolved)"
proof (induction xs arbitrary: s)
  case Nil
  then show ?case by simp
next
  case (Cons x xs)
  obtain rid req f where x: "x = (rid, req, f)" by (cases x) auto
  show ?case
  proof (cases "f = fid")
    case True
    have "futures (resolve_future f v s) ! fid = v"
      using Cons.prems True by (simp add: resolve_future_nth)
    then have "futures (fold (\<lambda>(request_id, request, fid) s'. resolve_future fid v s') xs
        (resolve_future f v s)) ! fid = v"
      using fold_resolve_keeps [of fid "resolve_future f v s" v xs] Cons.prems(1,3)
      by (simp add: resolve_future_length)
    then show ?thesis using True x by simp
  next
    case False
    have "futures (resolve_future f v s) ! fid = Unresolved"
      using Cons.prems False by (simp add: resolve_future_nth)
    from Cons.IH [OF _ this Cons.prems(3)] Cons.prems(1) False x show ?thesis
      by (simp add: resolve_future_length)
  qed
qed

lemma cleanup_client_length:
  "length (tasks (cleanup_client c s)) = length (tasks s)"
  "length (futures (cleanup_client c s)) = length (futures s)"
  by (simp_all add: cleanup_client_def Let_def fold_resolve_tasks fold_cancel_length
      fold_resolve_length fold_cancel_futures split: option.splits)

lemma cleanup_client_status:
  "tid < length (tasks s) \<Longrightarrow>
   status (tasks (cleanup_client c s) ! tid) =
     (case get_client c s of
        None \<Rightarrow> status (tasks s ! tid)
      | Some cs \<Rightarrow>
          if status (tasks s ! tid) = Pending \<and> tid \<in> (snd \<circ> snd) ` set (inbound cs)
          then Cancelled else status (tasks s ! tid))"
  by (cases "status (tasks s ! tid) = Pending")
    (simp_all add: cleanup_client_def Let_def fold_resolve_tasks fold_cancel_pending
      fold_cancel_keeps split: option.splits)

lemma cleanup_client_future:
  "fid < length (futures s) \<Longrightarrow>
   futures (cleanup_client c s) ! fid =
     (case get_client c s of
        None \<Rightarrow> futures s ! fid
      | Some cs \<Rightarrow>
          if futures s ! fid = Unresolved \<and> fid \<in> (snd \<circ> snd) ` set (outbound cs)
          then CancellationError else futures s ! fid)"
  by (cases "futures s ! fid = Unresolved")
    (simp_all add: cleanup_client_def Let_def fold_cancel_futures fold_cancel_length
      fold_resolve_unresolved fold_resolve_keeps split: option.splits)

lemma fold_cleanup_length:
  "length (tasks (fold cleanup_client ks s)) = length (tasks s)
   \<and> length (futures (fold cleanup_client ks s)) = length (futures s)"
  by (induction ks arbitrary: s) (simp_all add: cleanup_client_length)

lemma fold_cleanup_keeps_status:
  "tid < length (tasks s) \<Longrightarrow> status (tasks s ! tid) \<noteq> Pending \<Longrightarrow>
   status (tasks (fold cleanup_client ks s) ! tid) = status (tasks s ! tid)"
proof (induction ks arbitrary: s)
  case Nil
  then show ?case by simp
next
  case (Cons k ks)
  have "status (tasks (cleanup_client k s) ! tid) = status (tasks s ! tid)"
    using Cons.prems by (simp add: cleanup_client_status split: option.splits)
  with Cons.IH [of "cleanup_client k s"] Cons.prems show ?case
    by (simp add: cleanup_client_length)
qed

lemma fold_cleanup_keeps_future:
  "fid < length (futures s) \<Longrightarrow> futures s ! fid \<noteq> Unresolved \<Longrightarrow>
   futures (fold cleanup_client ks s) ! fid = futures s ! fid"
proof (induction ks arbitrary: s)
  case Nil
  then show ?case by simp
next
  case (Cons k ks)
  have "futures (cleanup_client k s) ! fid = futures s ! fid"
    using Cons.prems by (simp add: cleanup_client_future split: option.splits)
  with Cons.IH [of "cleanup_client k s"] Cons.prems show ?case
    by (simp add: cleanup_client_length)
qed

lemma fold_cleanup_cancels:
  "c \<in> set ks \<Longrightarrow> get_client c s = Some cs \<Longrightarrow> tid \<in> (snd \<circ> snd) ` set (inbound cs) \<Longrightarrow>
   tid < length (tasks s) \<Longrightarrow> status (tasks s ! tid) = Pending \<Longrightarrow>
   status (tasks (fold cleanup_client ks s) ! tid) = Cancelled"
proof (induction ks arbitrary: s)
  case Nil
  then show ?case by simp
next
  case (Cons k ks)
  have len: "tid < length (tasks (cleanup_client k s))"
    using Cons.prems(4) by (simp add: cleanup_client_length)
  show ?case
  proof (cases "status (tasks (cleanup_client k s) ! tid) = Pending")
    case False
    have "status (tasks (cleanup_client k s) ! tid) = Cancelled"
      using False Cons.prems(4,5) by (auto simp: cleanup_client_status split: option.splits if_splits)
    with fold_cleanup_keeps_status [OF len False, of ks] show ?thesis by simp
  next
    case True
    have "k \<noteq> c"
    proof
      assume "k = c"
      then have "status (tasks (cleanup_client k s) ! tid) = Cancelled"
        using Cons.prems(2-5) by (simp add: cleanup_client_status)
      with True show False by simp
    qed
    then have "c \<in> set ks" and "get_client c (cleanup_client k s) = Some cs"
      using Cons.prems(1,2) by (simp_all add: get_client_cleanup_client)
    from Cons.IH [OF this Cons.prems(3) len True] show ?thesis by simp
  qed
qed

lemma fold_cleanup_resolves:
  "c \<in> set ks \<Longrightarrow> get_client c s = Some cs \<Longrightarrow> fid \<in> (snd \<circ> snd) ` set (outbound cs) \<Longrightarrow>
   fid < length (futures s) \<Longrightarrow> futures s ! fid = Unresolved \<Longrightarrow>
   futures (fold cleanup_client ks s) ! fid = CancellationError"
proof (induction ks arbitrary: s)
  case Nil
  then show ?case by simp
next
  case (Cons k ks)
  have len: "fid < length (futures (cleanup_client k s))"
    using Cons.prems(4) by (simp add: cleanup_client_length)
  show ?case
  proof (cases "futures (cleanup_client k s) ! fid = Unresolved")
    case False
    have "futures (cleanup_client k s) ! fid = CancellationError"
      using False Cons.prems(4,5) by (auto simp: cleanup_client_future split: option.splits if_splits)
    with fold_cleanup_keeps_future [OF len False, of ks] show ?thesis by simp
  next
    case True
    have "k \<noteq> c"
    proof
      assume "k = c"
      then have "futures (cleanup_client k s) ! fid = CancellationError"
        using Cons.prems(2-5) by (simp add: cleanup_client_future)
      with True show False by simp
    qed
    then have "c \<in> set ks" and "get_client c (cleanup_client k s) = Some cs"
      using Cons.prems(1,2) by (simp_all add: get_client_cleanup_client)
    from Cons.IH [OF this Cons.prems(3) len True] show ?thesis by simp
  qed
qed

lemma cleanup_all_clients_cancels:
  assumes "get_request_from_client c rid s = Some (req, tid)"
    and "tid < length (tasks s)" and "status (tasks s ! tid) = Pending"
  shows "status (tasks (cleanup_all_clients s) ! tid) = Cancelled"
proof -
  obtain cs where cs: "get_client c s = Some cs" and en: "map_of (inbound cs) rid = Some (req, tid)"
    using assms(1) by (auto simp: get_request_from_client_def split: option.splits)
  have "(rid, req, tid) \<in> set (inbound cs)" using en by (rule map_of_SomeD)
  then have m: "tid \<in> (snd \<circ> snd) ` set (inbound cs)" by force
  have "(c, cs) \<in> set (clients s)" using cs by (auto simp: get_client_def dest: map_of_SomeD)
  then have k: "c \<in> set (map fst (clients s))" by force
  show ?thesis
    unfolding cleanup_all_clients_def
    by (rule fold_cleanup_cancels [OF k cs m assms(2,3)])
qed

lemma cleanup_all_clients_resolves:
  assumes "get_request_to_client c rid s = Some (req, fid)"
    and "fid < length (futures s)" and "futures s ! fid = Unresolved"
  shows "futures (cleanup_all_clients s) ! fid = CancellationError"
proof -
  obtain cs where cs: "get_client c s = Some cs" and en: "map_of (outbound cs) rid = Some (req, fid)"
    using assms(1) by (auto simp: get_request_to_client_def split: option.splits)
  have "(rid, req, fid) \<in> set (outbound cs)" using en by (rule map_of_SomeD)
  then have m: "fid \<in> (snd \<circ> snd) ` set (outbound cs)" by force
  have "(c, cs) \<in> set (clients s)" using cs by (auto simp: get_client_def dest: map_of_SomeD)
  then have k: "c \<in> set (map fst (clients s))" by force
  show ?thesis
    unfolding cleanup_all_clients_def
    by (rule fold_cleanup_resolves [OF k cs m assms(2,3)])
qed

lemma cleanup_all_clients_no_clients:
  "clients s = [] \<Longrightarrow> cleanup_all_clients s = s"
  by (simp add: cleanup_all_clients_def)

lemma message_loop_exit_running:
  assumes "running s"
  shows "message_loop_exit cause s =
     cleanup_all_clients
       ((case cause of
           None \<Rightarrow> s
         | Some e \<Rightarrow> if is_Exception e then print (TransportError e) s else s)
        \<lparr>message_loop_task := None\<rparr>)"
  using assms
  by (simp add: message_loop_exit_def Let_def on_message_loop_done_def)

lemma stop_running:
  assumes "running s"
  shows "stop s = cleanup_all_clients (s\<lparr>message_loop_task := None\<rparr>)"
proof -
  define x where "x = cleanup_all_clients (s\<lparr>message_loop_task := None\<rparr>)"
  have e: "message_loop_exit (Some CancelledError) s = x"
    using assms by (simp add: message_loop_exit_running x_def)
  have "message_loop_task x = None"
    by (simp add: x_def cleanup_all_clients_frame)
  then have "x\<lparr>message_loop_task := None\<rparr> = x\<lparr>message_loop_task := message_loop_task x\<rparr>"
    by simp
  then have y: "x\<lparr>message_loop_task := None\<rparr> = x" by simp
  have "clients x = []" by (simp add: x_def cleanup_all_clients_clients)
  then have "cleanup_all_clients x = x" by (rule cleanup_all_clients_no_clients)
  then show ?thesis
    using assms e y by (simp add: stop_def Let_def x_def [symmetric])
qed

subsection \<open>Inbound messages\<close>


lemma get_request_from_client_registered:
  "get_request_from_client c rid s = Some entry \<Longrightarrow>
   \<exists>cs. get_client c s = Some cs \<and> map_of (inbound cs) rid = Some entry"
  by (auto simp: get_request_from_client_def split: option.splits)

lemma execute_request_handler_try_raised:
  assumes "(handler client_id request = Raises e \<and> s1 = s)
       \<or> (\<exists>v. handler client_id request = Returns v
              \<and> transport_send client_id (handler_response request_id v) s = (Inl e, s1))
       \<or> (\<exists>err s0. handler client_id request = Returns (IsError err)
              \<and> transport_send client_id (JSONRPCError request_id err) s = (Inr (), s0)
              \<and> code err = pvm
              \<and> cleanup client_id s0 = (Inl e, s1))"
  shows "execute_request_handler_try pvm cleanup handler client_id request_id request s = (Inl e, s1)"
  using assms
  by (auto simp: execute_request_handler_try_def handler_response_def
      should_disconnect_for_error_def)

subsection \<open>The handshake\<close>

lemma initialize_calls_cached:
  "initialize_result s = Some res \<Longrightarrow>
   initialize_calls ks uuid s = s\<lparr>returned := returned s @ map (\<lambda>caller. (caller, Inr res)) ks\<rparr>"
proof (induction ks arbitrary: s)
  case Nil
  then show ?case by (simp add: initialize_calls_def)
next
  case (Cons k ks)
  have "initialize_result (initialize k uuid s) = Some res"
    using Cons.prems by (simp add: initialize_def)
  from Cons.IH [OF this] Cons.prems show ?case
    by (simp add: initialize_calls_def initialize_def)
qed

lemma initialize_calls_attach:
  "initialize_result s = None \<Longrightarrow> initializing s = Some waiting \<Longrightarrow>
   initialize_calls ks uuid s = s\<lparr>initializing := Some (waiting @ ks)\<rparr>"
proof (induction ks arbitrary: s waiting)
  case Nil
  then show ?case by (simp add: initialize_calls_def)
next
  case (Cons k ks)
  have 1: "initialize_result (initialize k uuid s) = None"
    and 2: "initializing (initialize k uuid s) = Some (waiting @ [k])"
    using Cons.prems by (simp_all add: initialize_def)
  from Cons.IH [OF 1 2] Cons.prems show ?case
    by (simp add: initialize_calls_def initialize_def)
qed

lemma initialize_calls_fresh:
  "initialize_calls (k # ks) uuid (new_session v) =
     (new_session v)
       \<lparr>client_sent_messages := [JSONRPCRequest (IdStr uuid) initialize_request],
        pending_requests := [(IdStr uuid, initialize_request)],
        initializing := Some (k # ks)\<rparr>"
proof -
  have f: "initialize k uuid (new_session v) =
     (new_session v)
       \<lparr>client_sent_messages := [JSONRPCRequest (IdStr uuid) initialize_request],
        pending_requests := [(IdStr uuid, initialize_request)],
        initializing := Some [k]\<rparr>"
    by (simp add: initialize_def new_session_def)
  have "initialize_calls (k # ks) uuid (new_session v) =
      initialize_calls ks uuid (initialize k uuid (new_session v))"
    by (simp add: initialize_calls_def)
  also have "\<dots> = (initialize k uuid (new_session v))\<lparr>initializing := Some ([k] @ ks)\<rparr>"
    by (rule initialize_calls_attach) (simp_all add: f, simp_all add: new_session_def)
  finally show ?thesis by (simp add: f)
qed

subsection \<open>Unfolding the worked examples\<close>

lemmas example_defs = example_coordinator_def init_def start_def running_def
  register_client_def register_request_handler_def example_parser_def list_tools_handler_def
  list_tools_request_def list_tools_message_def

lemmas run_defs = execute_request_handler_def execute_request_handler_try_def send_error_def
  transport_send_def internal_error_def INTERNAL_ERROR_def handler_response_def
  should_disconnect_for_error_def cleanup_client_op_def cleanup_client_def get_client_def
  Let_def

lemmas loop_defs = message_loop_step_def route_client_message_def handle_request_def
  route_request_def ensure_client_registered_def create_task_def add_done_callback_def
  track_request_from_client_def print_def get_request_from_client_def

lemmas send_defs = send_request_def send_request_prepare_def send_request_exit_def
  send_request_suspended_def wait_for_def handle_request_timeout_def send_notification_def
  new_future_def resolve_future_def track_request_to_client_def untrack_request_to_client_def
  get_request_to_client_def ensure_client_registered_def

lemmas busy_defs = busy_coordinator_def stop_def message_loop_exit_def on_message_loop_done_def
  cleanup_all_clients_def cleanup_client_def cancel_task_def

section \<open>The claims\<close>

subsection \<open>Claim C1\<close>

text \<open>
  Claim C1. A call of \<^verbatim>\<open>send_request\<close> on a running coordinator that got as far as
  tracking its outbound entry leaves no entry for \<open>(client_id, request_id)\<close> behind, however
  it ends: with the value the completion handle was resolved with (a result or an error
  result), with a timeout, with a cancellation, or with a failed send. When the transport
  has accepted the request and the wait times out, the caller gets the timeout error; and
  if the coordinator is still running at that moment (\<^verbatim>\<open>send_notification\<close> checks it), the
  last payload handed to the transport before the error is raised is the
  \<^verbatim>\<open>CancelledNotification\<close> with that request id and the reason \<open>Request timed out\<close>,
  which reaches the peer when the transport accepts it. \<open>between\<close> is whatever the rest of
  the system did while the caller waited.
\<close>

theorem send_request_timeout_notifies_and_untracks:
  assumes "running s"
    and "send_request client_id request uuid between w s = (r, s')"
  shows "get_request_to_client client_id (IdStr uuid) s' = None
       \<and> (\<not> (faults (transport s) \<noteq> [] \<and> hd (faults (transport s))) \<longrightarrow>
            (\<forall>v. w = WaitReturns v \<longrightarrow> r = Inr v)
          \<and> (w = WaitRaises CancelledError \<longrightarrow> r = Inl CancelledError)
          \<and> (w = WaitRaises TimeoutError \<longrightarrow>
                r = Inl TimeoutError
              \<and> (running (between (send_request_suspended client_id request uuid s)) \<longrightarrow>
                   calls (transport s') =
                     calls (transport (between (send_request_suspended client_id request uuid s))) @
                       [(client_id,
                         JSONRPCNotification
                           (CancelledNotification (IdStr uuid) (Some ''Request timed out'')))]
                 \<and> (\<not> (faults (transport (between (send_request_suspended client_id request uuid s))) \<noteq> []
                        \<and> hd (faults (transport (between (send_request_suspended client_id request uuid s))))) \<longrightarrow>
                      delivered (transport s') =
                        delivered (transport (between (send_request_suspended client_id request uuid s))) @
                          [(client_id,
                            JSONRPCNotification
                              (CancelledNotification (IdStr uuid) (Some ''Request timed out'')))]))))"
proof -
  obtain s3 where p: "send_request_prepare client_id request uuid s = (Inr (length (futures s)), s3)"
    and t: "transport s3 = transport s"
    using send_request_prepare_tracks [of client_id request uuid s] by blast
  define body where "body =
     (case transport_send client_id (JSONRPCRequest (IdStr uuid) request) s3 of
          (Inl e, s4) \<Rightarrow> (Inl e, s4)
        | (Inr u, s4) \<Rightarrow> wait_for (length (futures s)) w (between s4))"
  have e: "(r, s') = send_request_exit client_id (IdStr uuid) body"
    using send_request_running [OF assms(1), of client_id request uuid between w] p assms(2)
    by (simp add: body_def)
  have u: "get_request_to_client client_id (IdStr uuid) s' = None"
    using send_request_exit_untracks [of client_id "IdStr uuid" body] e [symmetric] by simp
  have rest: "(\<forall>v. w = WaitReturns v \<longrightarrow> r = Inr v)
          \<and> (w = WaitRaises CancelledError \<longrightarrow> r = Inl CancelledError)
          \<and> (w = WaitRaises TimeoutError \<longrightarrow>
                r = Inl TimeoutError
              \<and> (running (between (send_request_suspended client_id request uuid s)) \<longrightarrow>
                   calls (transport s') =
                     calls (transport (between (send_request_suspended client_id request uuid s))) @
                       [(client_id,
                         JSONRPCNotification
                           (CancelledNotification (IdStr uuid) (Some ''Request timed out'')))]
                 \<and> (\<not> (faults (transport (between (send_request_suspended client_id request uuid s))) \<noteq> []
                        \<and> hd (faults (transport (between (send_request_suspended client_id request uuid s))))) \<longrightarrow>
                      delivered (transport s') =
                        delivered (transport (between (send_request_suspended client_id request uuid s))) @
                          [(client_id,
                            JSONRPCNotification
                              (CancelledNotification (IdStr uuid) (Some ''Request timed out'')))])))"
    if acc: "\<not> (faults (transport s) \<noteq> [] \<and> hd (faults (transport s)))"
  proof -
    have acc3: "\<not> (faults (transport s3) \<noteq> [] \<and> hd (faults (transport s3)))"
      using acc t by simp
    define sw where "sw = between (send_request_suspended client_id request uuid s)"
    have b: "body = wait_for (length (futures s)) w sw"
      using p by (simp add: body_def sw_def send_request_suspended_def
          transport_send_accepted [OF acc3])
    have 1: "r = Inr v" if "w = WaitReturns v" for v
      using e that by (simp add: b wait_for_def send_request_exit_def)
    have 2: "r = Inl CancelledError" if "w = WaitRaises CancelledError"
      using e that by (simp add: b wait_for_def send_request_exit_def)
    have 3: "r = Inl TimeoutError" if "w = WaitRaises TimeoutError"
      using e that handle_request_timeout_returns [of client_id "IdStr uuid"
          "resolve_future (length (futures s)) CancellationError sw"]
      by (simp add: b wait_for_def send_request_exit_def split: prod.splits sum.splits)
    have 4: "calls (transport s') = calls (transport sw) @
          [(client_id, JSONRPCNotification
              (CancelledNotification (IdStr uuid) (Some ''Request timed out'')))]
        \<and> (\<not> (faults (transport sw) \<noteq> [] \<and> hd (faults (transport sw))) \<longrightarrow>
             delivered (transport s') = delivered (transport sw) @
               [(client_id, JSONRPCNotification
                   (CancelledNotification (IdStr uuid) (Some ''Request timed out'')))])"
      if "w = WaitRaises TimeoutError" and "running sw"
    proof -
      define sc where "sc = resolve_future (length (futures s)) CancellationError sw"
      have rc: "running sc" and tc: "transport sc = transport sw"
        using that(2) by (simp_all add: sc_def running_def resolve_future_frame)
      have "s' = snd (untrack_request_to_client client_id (IdStr uuid)
                   (snd (handle_request_timeout client_id (IdStr uuid) sc)))"
        using e that(1)
        by (simp add: b wait_for_def send_request_exit_def sc_def split: prod.splits sum.splits)
      then show ?thesis
        using handle_request_timeout_running [OF rc, of client_id "IdStr uuid"] tc
        by (simp add: untrack_request_to_client_frame)
    qed
    show ?thesis using 1 2 3 4 by (simp add: sw_def)
  qed
  show ?thesis using u rest by blast
qed

text \<open>
  The theorem at work: nobody answers request \<open>u1\<close> to client \<open>c1\<close>, and the wait times
  out.
\<close>

theorem send_request_timeout_notifies_and_untracks_witness:
  "running (example_coordinator [])
   \<and> fst (send_request ''c1'' list_tools_request ''u1'' (\<lambda>s. s) (WaitRaises TimeoutError)
            (example_coordinator [])) = Inl TimeoutError
   \<and> calls (transport (snd (send_request ''c1'' list_tools_request ''u1'' (\<lambda>s. s)
            (WaitRaises TimeoutError) (example_coordinator []))))
       = [(''c1'', JSONRPCRequest (IdStr ''u1'') list_tools_request),
          (''c1'', JSONRPCNotification
                     (CancelledNotification (IdStr ''u1'') (Some ''Request timed out'')))]
   \<and> get_request_to_client ''c1'' (IdStr ''u1'')
       (snd (send_request ''c1'' list_tools_request ''u1'' (\<lambda>s. s) (WaitRaises TimeoutError)
               (example_coordinator []))) = None"
  using send_request_timeout_notifies_and_untracks [of "example_coordinator []" "''c1''" list_tools_request "''u1''" "\<lambda>s. s"
      "WaitRaises TimeoutError"
      "fst (send_request ''c1'' list_tools_request ''u1'' (\<lambda>s. s) (WaitRaises TimeoutError)
            (example_coordinator []))"
      "snd (send_request ''c1'' list_tools_request ''u1'' (\<lambda>s. s) (WaitRaises TimeoutError)
            (example_coordinator []))"]
  by (simp add: example_defs send_defs run_defs)

subsection \<open>Claim C2\<close>

text \<open>
  Claim C2. Both ways out of the running state are a run of \<^verbatim>\<open>cleanup_all_clients\<close>: an
  explicit \<^verbatim>\<open>stop\<close> is exactly that cleanup applied to the coordinator with its loop
  task cleared, and so is the end of the message loop task for whatever \<open>cause\<close> (the
  stream is exhausted, it raises and the transport error is printed, or the task is
  cancelled), after which the done-callback runs. So every handler task that was tracked
  in a client's inbound table and still pending is cancelled, every completion handle
  that was tracked in an outbound table and still unresolved is resolved with the
  cancellation error, the coordinator is not running, and the client manager holds no
  client: no inbound or outbound entry of any client is left. There is no third way out:
  an iteration of the message loop and a scheduler step of a handler task leave a running
  coordinator running.
\<close>

theorem leaving_running_cleans_up_all_clients:
  assumes "running s"
  shows "stop s = cleanup_all_clients (s\<lparr>message_loop_task := None\<rparr>)
       \<and> message_loop_exit cause s =
           cleanup_all_clients
             ((case cause of
                 None \<Rightarrow> s
               | Some e \<Rightarrow> if is_Exception e then print (TransportError e) s else s)
              \<lparr>message_loop_task := None\<rparr>)
       \<and> (\<forall>c rid req tid.
             get_request_from_client c rid s = Some (req, tid) \<and> tid < length (tasks s)
             \<and> status (tasks s ! tid) = Pending \<longrightarrow>
             status (tasks (stop s) ! tid) = Cancelled
           \<and> status (tasks (message_loop_exit cause s) ! tid) = Cancelled)
       \<and> (\<forall>c rid req fid.
             get_request_to_client c rid s = Some (req, fid) \<and> fid < length (futures s)
             \<and> futures s ! fid = Unresolved \<longrightarrow>
             futures (stop s) ! fid = CancellationError
           \<and> futures (message_loop_exit cause s) ! fid = CancellationError)
       \<and> clients (stop s) = [] \<and> \<not> running (stop s)
       \<and> (\<forall>c rid. get_request_from_client c rid (stop s) = None
                  \<and> get_request_to_client c rid (stop s) = None)
       \<and> clients (message_loop_exit cause s) = [] \<and> \<not> running (message_loop_exit cause s)
       \<and> (\<forall>c rid. get_request_from_client c rid (message_loop_exit cause s) = None
                  \<and> get_request_to_client c rid (message_loop_exit cause s) = None)
       \<and> running (snd (message_loop_step client_message s))
       \<and> running (run_task pvm tid s)"
proof -
  define s0 where "s0 = s\<lparr>message_loop_task := None\<rparr>"
  define s1 where "s1 =
     (case cause of
        None \<Rightarrow> s
      | Some e \<Rightarrow> if is_Exception e then print (TransportError e) s else s)
     \<lparr>message_loop_task := None\<rparr>"
  have a: "stop s = cleanup_all_clients s0"
    using stop_running [OF assms] by (simp add: s0_def)
  have b: "message_loop_exit cause s = cleanup_all_clients s1"
    using message_loop_exit_running [OF assms, of cause] by (simp add: s1_def)
  have same0: "clients s0 = clients s" "tasks s0 = tasks s" "futures s0 = futures s"
    by (simp_all add: s0_def)
  have same1: "clients s1 = clients s" "tasks s1 = tasks s" "futures s1 = futures s"
    by (simp_all add: s1_def print_def split: option.splits)
  have c: "status (tasks (stop s) ! t) = Cancelled
         \<and> status (tasks (message_loop_exit cause s) ! t) = Cancelled"
    if "get_request_from_client c rid s = Some (req, t)" "t < length (tasks s)"
      "status (tasks s ! t) = Pending" for c rid req t
  proof -
    have g0: "get_request_from_client c rid s0 = Some (req, t)"
      and g1: "get_request_from_client c rid s1 = Some (req, t)"
      using that(1) same0 same1 by (simp_all add: get_request_from_client_def get_client_def)
    show ?thesis
      using cleanup_all_clients_cancels [OF g0] cleanup_all_clients_cancels [OF g1] that(2,3)
      by (simp add: a b same0 same1)
  qed
  have d: "futures (stop s) ! f = CancellationError
         \<and> futures (message_loop_exit cause s) ! f = CancellationError"
    if "get_request_to_client c rid s = Some (req, f)" "f < length (futures s)"
      "futures s ! f = Unresolved" for c rid req f
  proof -
    have g0: "get_request_to_client c rid s0 = Some (req, f)"
      and g1: "get_request_to_client c rid s1 = Some (req, f)"
      using that(1) same0 same1 by (simp_all add: get_request_to_client_def get_client_def)
    show ?thesis
      using cleanup_all_clients_resolves [OF g0] cleanup_all_clients_resolves [OF g1] that(2,3)
      by (simp add: a b same0 same1)
  qed
  have 1: "clients (stop s) = []" and 2: "\<not> running (stop s)"
    by (simp_all add: a s0_def cleanup_all_clients_clients cleanup_all_clients_frame running_def)
  have 3: "clients (message_loop_exit cause s) = []"
    and 4: "\<not> running (message_loop_exit cause s)"
    by (simp_all add: b s1_def cleanup_all_clients_clients cleanup_all_clients_frame
        running_def)
  have 5: "running (snd (message_loop_step client_message s))"
    using assms by (simp add: message_loop_step_running)
  have 6: "running (run_task pvm tid s)"
    using assms by (simp add: running_def run_task_message_loop_task)
  have 7: "\<forall>c rid. get_request_from_client c rid (stop s) = None
                  \<and> get_request_to_client c rid (stop s) = None"
    using 1 lookups_no_clients by blast
  have 8: "\<forall>c rid. get_request_from_client c rid (message_loop_exit cause s) = None
                  \<and> get_request_to_client c rid (message_loop_exit cause s) = None"
    using 3 lookups_no_clients by blast
  have a': "stop s = cleanup_all_clients (s\<lparr>message_loop_task := None\<rparr>)"
    using a by (simp add: s0_def)
  have b': "message_loop_exit cause s =
           cleanup_all_clients
             ((case cause of
                 None \<Rightarrow> s
               | Some e \<Rightarrow> if is_Exception e then print (TransportError e) s else s)
              \<lparr>message_loop_task := None\<rparr>)"
    using b by (simp add: s1_def)
  from c have c': "\<forall>c rid req tid.
             get_request_from_client c rid s = Some (req, tid) \<and> tid < length (tasks s)
             \<and> status (tasks s ! tid) = Pending \<longrightarrow>
             status (tasks (stop s) ! tid) = Cancelled
           \<and> status (tasks (message_loop_exit cause s) ! tid) = Cancelled"
    by blast
  from d have d': "\<forall>c rid req fid.
             get_request_to_client c rid s = Some (req, fid) \<and> fid < length (futures s)
             \<and> futures s ! fid = Unresolved \<longrightarrow>
             futures (stop s) ! fid = CancellationError
           \<and> futures (message_loop_exit cause s) ! fid = CancellationError"
    by blast
  show ?thesis
    using a' b' c' d' 1 2 3 4 5 6 7 8 by (intro conjI)
qed

text \<open>
  The theorem at work: the busy example coordinator, with one request of client \<open>c1\<close>
  executing and one request to it awaiting its answer, is stopped, or loses its transport
  stream.
\<close>

theorem leaving_running_cleans_up_all_clients_witness:
  "running busy_coordinator
   \<and> get_request_from_client ''c1'' (IdInt 7) busy_coordinator = Some (list_tools_request, 0)
   \<and> get_request_to_client ''c1'' (IdStr ''u1'') busy_coordinator = Some (list_tools_request, 0)
   \<and> map status (tasks busy_coordinator) = [Pending]
   \<and> futures busy_coordinator = [Unresolved]
   \<and> map status (tasks (stop busy_coordinator)) = [Cancelled]
   \<and> futures (stop busy_coordinator) = [CancellationError]
   \<and> clients (stop busy_coordinator) = []
   \<and> map status (tasks (message_loop_exit (Some (ConnectionError ''stream closed''))
                          busy_coordinator)) = [Cancelled]
   \<and> futures (message_loop_exit (Some (ConnectionError ''stream closed'')) busy_coordinator)
       = [CancellationError]
   \<and> clients (message_loop_exit (Some (ConnectionError ''stream closed'')) busy_coordinator)
       = []"
  using leaving_running_cleans_up_all_clients [of busy_coordinator "Some (ConnectionError ''stream closed'')"]
  by (simp add: busy_defs example_defs loop_defs send_defs run_defs)

subsection \<open>Claim C3\<close>

text \<open>
  Claim C3, as amended. When a request arrives whose id already has an entry in the
  client's inbound table and whose method has a handler, \<^verbatim>\<open>_route_request\<close> has created the
  handler task before it tracks; tracking then fails and leaves the tables as they were, so
  the original entry stays. No JSON-RPC error response is sent: the failure leaves
  \<^verbatim>\<open>_route_request\<close> as an exception, which the message loop prints before it goes on with
  the next message. The transport is untouched, and the task created for the duplicate
  stays pending without a done-callback.
\<close>

theorem duplicate_request_id_gets_no_error_response:
  assumes "map_of (request_handlers s) (method request) = Some handler"
    and "get_request_from_client client_id request_id s = Some entry"
  shows "route_request client_id request_id request s =
           (Inl (ValueError ''duplicate request id''),
            s\<lparr>tasks := tasks s @
                 [\<lparr>body = RequestTask handler client_id request_id request,
                   status = Pending, done_callbacks = []\<rparr>]\<rparr>)
       \<and> (p_id payload = Some request_id \<and> is_valid_request (parser s) payload
            \<and> parse_request (parser s) payload = Inr request \<longrightarrow>
          message_loop_step \<lparr>msg_client_id = client_id, msg_payload = payload\<rparr> s =
            (Inr (),
             s\<lparr>tasks := tasks s @
                  [\<lparr>body = RequestTask handler client_id request_id request,
                    status = Pending, done_callbacks = []\<rparr>],
               printed := printed s @
                  [ErrorHandlingMessage client_id (ValueError ''duplicate request id'')]\<rparr>))"
proof -
  obtain cs where cs: "get_client client_id s = Some cs"
    and en: "map_of (inbound cs) request_id = Some entry"
    using get_request_from_client_registered [OF assms(2)] by blast
  have r: "route_request client_id request_id request s =
           (Inl (ValueError ''duplicate request id''),
            s\<lparr>tasks := tasks s @
                 [\<lparr>body = RequestTask handler client_id request_id request,
                   status = Pending, done_callbacks = []\<rparr>]\<rparr>)"
    using assms(1) cs en
    by (simp add: route_request_def create_task_def track_request_from_client_def
        get_client_def)
  have e: "ensure_client_registered client_id s = s"
    using cs by (simp add: ensure_client_registered_def)
  have l: "message_loop_step \<lparr>msg_client_id = client_id, msg_payload = payload\<rparr> s =
            (Inr (),
             s\<lparr>tasks := tasks s @
                  [\<lparr>body = RequestTask handler client_id request_id request,
                    status = Pending, done_callbacks = []\<rparr>],
               printed := printed s @
                  [ErrorHandlingMessage client_id (ValueError ''duplicate request id'')]\<rparr>)"
    if "p_id payload = Some request_id" "is_valid_request (parser s) payload"
      "parse_request (parser s) payload = Inr request"
    using that r e
    by (simp add: message_loop_step_def route_client_message_def handle_request_def print_def)
  show ?thesis using r l by blast
qed

text \<open>
  The claim as it was stated fails: client \<open>c1\<close> sends request \<open>7\<close> twice while the first
  is still executing. After the second message nothing has been handed to the transport,
  and when the task created for the duplicate runs, the client gets an ordinary response
  for id \<open>7\<close>, not an error.
\<close>

theorem duplicate_request_id_counterexample:
  "get_request_from_client ''c1'' (IdInt 7)
     (snd (message_loop_step list_tools_message (example_coordinator []))) \<noteq> None
   \<and> calls (transport
        (snd (message_loop_step list_tools_message
               (snd (message_loop_step list_tools_message (example_coordinator [])))))) = []
   \<and> calls (transport
        (run_task 0 1
          (snd (message_loop_step list_tools_message
                 (snd (message_loop_step list_tools_message (example_coordinator [])))))))
       = [(''c1'', JSONRPCResponse (IdInt 7) (Result (JObj [(''tools'', JArr [])])))]"
  by (simp add: example_defs loop_defs run_defs run_task_def finish_task_def
      untrack_request_from_client_def)

text \<open>
  The theorem at work: the second routing of request \<open>7\<close> in the same scenario.
\<close>

theorem duplicate_request_id_gets_no_error_response_witness:
  "get_request_from_client ''c1'' (IdInt 7)
     (snd (message_loop_step list_tools_message (example_coordinator [])))
     = Some (list_tools_request, 0)
   \<and> fst (route_request ''c1'' (IdInt 7) list_tools_request
            (snd (message_loop_step list_tools_message (example_coordinator []))))
       = Inl (ValueError ''duplicate request id'')
   \<and> transport (snd (route_request ''c1'' (IdInt 7) list_tools_request
            (snd (message_loop_step list_tools_message (example_coordinator [])))))
       = transport (snd (message_loop_step list_tools_message (example_coordinator [])))"
  using duplicate_request_id_gets_no_error_response [of "snd (message_loop_step list_tools_message (example_coordinator []))"
      list_tools_request list_tools_handler "''c1''" "IdInt 7" "(list_tools_request, 0)"
      "msg_payload list_tools_message"]
  by (simp add: example_defs loop_defs get_client_def Let_def)

subsection \<open>Claim C4\<close>




subsection \<open>Claim C5\<close>



subsection \<open>Claim C6\<close>

text \<open>
  Claim C6. When the registered handler of an inbound request raises an exception (an
  \<^verbatim>\<open>Exception\<close>, which is what the \<^verbatim>\<open>except\<close> clause catches), the coordinator hands
  to the transport a JSON-RPC error response for that request id with code \<open>-32603\<close>
  whose data echoes the request; when the transport accepts it the coroutine returns
  normally. Nothing but the transport changes: the client stays registered with its
  tables, and the message loop keeps running.
\<close>

theorem handler_exception_sends_internal_error:
  assumes "handler client_id request = Raises e" and "is_Exception e"
    and "execute_request_handler pvm cleanup handler client_id request_id request s = (r, s')"
  shows "calls (transport s') =
           calls (transport s) @
             [(client_id,
               JSONRPCError request_id
                 \<lparr>code = - 32603, message = ''Problem handling request'',
                  data = Some (EchoRequest request)\<rparr>)]
       \<and> (\<not> (faults (transport s) \<noteq> [] \<and> hd (faults (transport s))) \<longrightarrow>
            r = Inr ()
          \<and> delivered (transport s') =
              delivered (transport s) @
                [(client_id,
                  JSONRPCError request_id
                    \<lparr>code = - 32603, message = ''Problem handling request'',
                     data = Some (EchoRequest request)\<rparr>)])
       \<and> s' = s\<lparr>transport := transport s'\<rparr>
       \<and> clients s' = clients s
       \<and> running s' = running s"
proof -
  have eq: "execute_request_handler pvm cleanup handler client_id request_id request s =
      transport_send client_id
        (JSONRPCError request_id
           \<lparr>code = - 32603, message = ''Problem handling request'',
            data = Some (EchoRequest request)\<rparr>) s"
    using assms(1,2)
    by (simp add: execute_request_handler_def execute_request_handler_try_def send_error_def
        INTERNAL_ERROR_def internal_error_def)
  show ?thesis
    using assms(3) unfolding eq
    by (auto simp: transport_send_def Let_def running_def split: if_splits)
qed

text \<open>
  The theorem at work: a handler that raises for request \<open>7\<close> of client \<open>c1\<close> on a started
  coordinator.
\<close>

theorem handler_exception_sends_internal_error_witness:
  "is_Exception (Exception ''boom'')
   \<and> execute_request_handler (- 32000) cleanup_client_op (\<lambda>c r. Raises (Exception ''boom''))
       ''c1'' (IdInt 7) \<lparr>method = ''tools/list'', params = JNull\<rparr>
       (start (init \<lparr>calls = [], delivered = [], faults = []\<rparr> [] (example_parser [])))
     = (Inr (),
        (start (init \<lparr>calls = [], delivered = [], faults = []\<rparr> [] (example_parser [])))
          \<lparr>transport :=
             \<lparr>calls = [(''c1'', JSONRPCError (IdInt 7)
                  \<lparr>code = - 32603, message = ''Problem handling request'',
                   data = Some (EchoRequest \<lparr>method = ''tools/list'', params = JNull\<rparr>)\<rparr>)],
              delivered = [(''c1'', JSONRPCError (IdInt 7)
                  \<lparr>code = - 32603, message = ''Problem handling request'',
                   data = Some (EchoRequest \<lparr>method = ''tools/list'', params = JNull\<rparr>)\<rparr>)],
              faults = []\<rparr>\<rparr>)"
  using handler_exception_sends_internal_error [of "\<lambda>c r. Raises (Exception ''boom'')" "''c1''"
      "\<lparr>method = ''tools/list'', params = JNull\<rparr>" "Exception ''boom''" "- 32000"
      cleanup_client_op "IdInt 7"
      "start (init \<lparr>calls = [], delivered = [], faults = []\<rparr> [] (example_parser []))"
      "fst (execute_request_handler (- 32000) cleanup_client_op (\<lambda>c r. Raises (Exception ''boom''))
       ''c1'' (IdInt 7) \<lparr>method = ''tools/list'', params = JNull\<rparr>
       (start (init \<lparr>calls = [], delivered = [], faults = []\<rparr> [] (example_parser []))))"
      "snd (execute_request_handler (- 32000) cleanup_client_op (\<lambda>c r. Raises (Exception ''boom''))
       ''c1'' (IdInt 7) \<lparr>method = ''tools/list'', params = JNull\<rparr>
       (start (init \<lparr>calls = [], delivered = [], faults = []\<rparr> [] (example_parser []))))"]
  by (simp add: init_def start_def running_def execute_request_handler_def
      execute_request_handler_try_def send_error_def transport_send_def internal_error_def
      INTERNAL_ERROR_def Let_def)

subsection \<open>Claim C7\<close>

text \<open>
  Claim C7. In a fresh session the callers \<open>ks\<close> call \<^verbatim>\<open>initialize()\<close> while the
  handshake is pending, the server's result with the supported protocol version arrives,
  and the callers \<open>later\<close> call afterwards. While the handshake is pending exactly one
  \<^verbatim>\<open>initialize\<close> request has been sent and no call has returned. In the end the client has
  sent that one request and one \<^verbatim>\<open>initialized\<close> notification, nothing else, and every
  call, early or late, has returned the same cached result.
\<close>

theorem initialize_is_idempotent:
  assumes "ks \<noteq> []" and "protocol_version res = v"
    and "pending = initialize_calls ks uuid (new_session v)"
    and "s = initialize_calls later uuid (receive_initialize_result res pending)"
  shows "initialize_frames pending = [JSONRPCRequest (IdStr uuid) initialize_request]
       \<and> returned pending = []
       \<and> initialize_frames s = [JSONRPCRequest (IdStr uuid) initialize_request]
       \<and> client_sent_messages s =
           [JSONRPCRequest (IdStr uuid) initialize_request,
            JSONRPCNotification initialized_notification]
       \<and> returned s = map (\<lambda>caller. (caller, Inr res)) (ks @ later)
       \<and> initialize_result s = Some res
       \<and> initializing s = None
       \<and> pending_requests s = []"
proof -
  obtain k ks' where ks: "ks = k # ks'"
    using assms(1) by (cases ks) auto
  have p: "pending = (new_session v)
       \<lparr>client_sent_messages := [JSONRPCRequest (IdStr uuid) initialize_request],
        pending_requests := [(IdStr uuid, initialize_request)],
        initializing := Some ks\<rparr>"
    using assms(3) by (simp add: ks initialize_calls_fresh)
  define fin where "fin = receive_initialize_result res pending"
  have d: "fin = pending
       \<lparr>client_sent_messages := [JSONRPCRequest (IdStr uuid) initialize_request,
            JSONRPCNotification initialized_notification],
        pending_requests := [],
        initializing := None,
        initialize_result := Some res,
        returned := map (\<lambda>caller. (caller, Inr res)) ks\<rparr>"
    using assms(2) by (simp add: fin_def p receive_initialize_result_def new_session_def)
  have "s = fin\<lparr>returned := returned fin @ map (\<lambda>caller. (caller, Inr res)) later\<rparr>"
    unfolding assms(4) fin_def [symmetric]
    by (rule initialize_calls_cached) (simp add: d)
  then show ?thesis
    by (simp add: d p new_session_def initialize_frames_def initialize_request_def)
qed

text \<open>
  The theorem at work: three concurrent calls, the server's result, then two more calls.
\<close>

theorem initialize_is_idempotent_witness:
  "initialize_frames
     (initialize_calls [4, 5] ''0''
        (receive_initialize_result
           \<lparr>protocol_version = ''2025-03-26'', capabilities = JObj [(''logging'', JObj [])],
            server_info = JObj [(''name'', JStr ''test-server''), (''version'', JStr ''1.0.0'')]\<rparr>
           (initialize_calls [1, 2, 3] ''0'' (new_session ''2025-03-26''))))
     = [JSONRPCRequest (IdStr ''0'') initialize_request]
   \<and> map fst (returned
     (initialize_calls [4, 5] ''0''
        (receive_initialize_result
           \<lparr>protocol_version = ''2025-03-26'', capabilities = JObj [(''logging'', JObj [])],
            server_info = JObj [(''name'', JStr ''test-server''), (''version'', JStr ''1.0.0'')]\<rparr>
           (initialize_calls [1, 2, 3] ''0'' (new_session ''2025-03-26''))))) = [1, 2, 3, 4, 5]"
  using initialize_is_idempotent [of "[1, 2, 3]"
      "\<lparr>protocol_version = ''2025-03-26'', capabilities = JObj [(''logging'', JObj [])],
            server_info = JObj [(''name'', JStr ''test-server''), (''version'', JStr ''1.0.0'')]\<rparr>"
      "''2025-03-26''"
      "initialize_calls [1, 2, 3] ''0'' (new_session ''2025-03-26'')" "''0''"
      "initialize_calls [4, 5] ''0''
        (receive_initialize_result
           \<lparr>protocol_version = ''2025-03-26'', capabilities = JObj [(''logging'', JObj [])],
            server_info = JObj [(''name'', JStr ''test-server''), (''version'', JStr ''1.0.0'')]\<rparr>
           (initialize_calls [1, 2, 3] ''0'' (new_session ''2025-03-26'')))" "[4, 5]"]
  by simp

subsection \<open>Claim C9\<close>

text \<open>
  Claim C9. On a running coordinator whose transport refuses the request, the entry is
  tracked before the send, the caller gets the transport's exception, and afterwards
  there is no outbound entry for \<open>(client_id, request_id)\<close>. The request was handed to the
  transport and nothing was delivered.
\<close>

theorem failed_send_untracks_outbound_entry:
  assumes "running s"
    and "faults (transport s) \<noteq> [] \<and> hd (faults (transport s))"
    and "send_request client_id request uuid between w s = (r, s')"
  shows "get_request_to_client client_id (IdStr uuid)
           (snd (send_request_prepare client_id request uuid s)) \<noteq> None
       \<and> r = Inl (ConnectionError ''send failed'')
       \<and> get_request_to_client client_id (IdStr uuid) s' = None
       \<and> calls (transport s') =
           calls (transport s) @ [(client_id, JSONRPCRequest (IdStr uuid) request)]
       \<and> delivered (transport s') = delivered (transport s)"
proof -
  obtain s3 where p: "send_request_prepare client_id request uuid s = (Inr (length (futures s)), s3)"
    and t: "transport s3 = transport s"
    and g: "get_request_to_client client_id (IdStr uuid) s3 = Some (request, length (futures s))"
    using send_request_prepare_tracks [of client_id request uuid s] by blast
  have refused: "faults (transport s3) \<noteq> [] \<and> hd (faults (transport s3))"
    using assms(2) t by simp
  define s4 where "s4 = s3\<lparr>transport := (transport s3)\<lparr>calls := calls (transport s3) @
          [(client_id, JSONRPCRequest (IdStr uuid) request)],
          faults := tl (faults (transport s3))\<rparr>\<rparr>"
  have "send_request client_id request uuid between w s =
      send_request_exit client_id (IdStr uuid) (Inl (ConnectionError ''send failed''), s4)"
    using send_request_running [OF assms(1), of client_id request uuid between w] p
      transport_send_refused [OF refused]
    by (simp add: s4_def)
  with assms(3) have e: "(r, s') = send_request_exit client_id (IdStr uuid)
        (Inl (ConnectionError ''send failed''), s4)"
    by simp
  have u: "get_request_to_client client_id (IdStr uuid) s' = None"
    using send_request_exit_untracks [of client_id "IdStr uuid"
        "(Inl (ConnectionError ''send failed''), s4)"] e [symmetric]
    by simp
  from e have "r = Inl (ConnectionError ''send failed'') \<and> transport s' = transport s4"
    by (simp add: send_request_exit_def untrack_request_to_client_frame)
  then have "r = Inl (ConnectionError ''send failed'')
     \<and> calls (transport s') = calls (transport s3) @
          [(client_id, JSONRPCRequest (IdStr uuid) request)]
     \<and> delivered (transport s') = delivered (transport s3)"
    by (simp add: s4_def)
  with u g p t show ?thesis by simp
qed

text \<open>
  The theorem at work: the first send of the example transport fails.
\<close>

theorem failed_send_untracks_outbound_entry_witness:
  "running (example_coordinator [True])
   \<and> fst (send_request ''c1'' list_tools_request ''u1'' (\<lambda>s. s)
             (WaitReturns (IsResult (Result JNull))) (example_coordinator [True]))
       = Inl (ConnectionError ''send failed'')
   \<and> get_request_to_client ''c1'' (IdStr ''u1'')
       (snd (send_request ''c1'' list_tools_request ''u1'' (\<lambda>s. s)
               (WaitReturns (IsResult (Result JNull))) (example_coordinator [True]))) = None"
  using failed_send_untracks_outbound_entry [of "example_coordinator [True]" "''c1''" list_tools_request "''u1''" "\<lambda>s. s"
      "WaitReturns (IsResult (Result JNull))"
      "fst (send_request ''c1'' list_tools_request ''u1'' (\<lambda>s. s)
             (WaitReturns (IsResult (Result JNull))) (example_coordinator [True]))"
      "snd (send_request ''c1'' list_tools_request ''u1'' (\<lambda>s. s)
             (WaitReturns (IsResult (Result JNull))) (example_coordinator [True]))"]
  by (simp add: example_defs)

subsection \<open>Claim C10\<close>

text \<open>
  Claim C10. Whatever raises an exception \<open>e\<close> inside the \<^verbatim>\<open>try\<close> statement of
  \<^verbatim>\<open>_execute_request_handler\<close>, leaving the state \<open>s1\<close> behind, be it the handler itself,
  the transport refusing the response to what the handler returned, or the client
  manager's \<^verbatim>\<open>cleanup_client\<close> failing after a protocol version mismatch was sent, the
  next payload handed to the transport is the error response with code \<open>-32603\<close> that
  echoes the request, and nothing but the transport changes after \<open>s1\<close>. That send is
  accepted or raises in its turn. The message loop is not touched: the coroutine runs in
  a task of its own, and no scheduler step of any task changes whether the loop runs.
\<close>

theorem any_exception_sends_internal_error:
  assumes "is_Exception e"
    and "(handler client_id request = Raises e \<and> s1 = s)
       \<or> (\<exists>v. handler client_id request = Returns v
              \<and> transport_send client_id (handler_response request_id v) s = (Inl e, s1))
       \<or> (\<exists>err s0. handler client_id request = Returns (IsError err)
              \<and> transport_send client_id (JSONRPCError request_id err) s = (Inr (), s0)
              \<and> code err = pvm
              \<and> cleanup client_id s0 = (Inl e, s1))"
    and "execute_request_handler pvm cleanup handler client_id request_id request s = (r, s')"
  shows "calls (transport s') =
           calls (transport s1) @
             [(client_id,
               JSONRPCError request_id
                 \<lparr>code = - 32603, message = ''Problem handling request'',
                  data = Some (EchoRequest request)\<rparr>)]
       \<and> s' = s1\<lparr>transport := transport s'\<rparr>
       \<and> running s' = running s1
       \<and> (r = Inr () \<or> r = Inl (ConnectionError ''send failed''))
       \<and> (\<forall>tid s0. running (run_task pvm tid s0) = running s0)"
proof -
  have "execute_request_handler pvm cleanup handler client_id request_id request s =
      transport_send client_id
        (JSONRPCError request_id
           \<lparr>code = - 32603, message = ''Problem handling request'',
            data = Some (EchoRequest request)\<rparr>) s1"
    using execute_request_handler_try_raised
        [of handler client_id request e s1 s request_id pvm cleanup] assms(1,2)
    by (simp add: execute_request_handler_def send_error_def internal_error_def
        INTERNAL_ERROR_def)
  with assms(3) have "transport_send client_id
        (JSONRPCError request_id
           \<lparr>code = - 32603, message = ''Problem handling request'',
            data = Some (EchoRequest request)\<rparr>) s1 = (r, s')"
    by simp
  then show ?thesis
    by (auto simp: transport_send_def Let_def running_def run_task_message_loop_task
        split: if_splits)
qed

text \<open>
  The theorem at work: the transport refuses the response of the \<open>tools/list\<close> handler;
  and a client manager whose cleanup raises after a version mismatch.
\<close>

theorem any_exception_sends_internal_error_witness:
  "is_Exception (ConnectionError ''send failed'')
   \<and> calls (transport (snd (execute_request_handler (- 32001) cleanup_client_op list_tools_handler
        ''c1'' (IdInt 7) list_tools_request (example_coordinator [True]))))
     = [(''c1'', JSONRPCResponse (IdInt 7) (Result (JObj [(''tools'', JArr [])]))),
        (''c1'', JSONRPCError (IdInt 7)
           \<lparr>code = - 32603, message = ''Problem handling request'',
            data = Some (EchoRequest list_tools_request)\<rparr>)]
   \<and> calls (transport (snd (execute_request_handler (- 32001)
        (\<lambda>c s. (Inl (RuntimeError ''cleanup failed''), s))
        (\<lambda>c r. Returns (IsError \<lparr>code = - 32001, message = ''Unsupported protocol version'',
                                  data = None\<rparr>))
        ''c1'' (IdInt 7) list_tools_request (example_coordinator []))))
     = [(''c1'', JSONRPCError (IdInt 7)
           \<lparr>code = - 32001, message = ''Unsupported protocol version'', data = None\<rparr>),
        (''c1'', JSONRPCError (IdInt 7)
           \<lparr>code = - 32603, message = ''Problem handling request'',
            data = Some (EchoRequest list_tools_request)\<rparr>)]"
  using any_exception_sends_internal_error [of "ConnectionError ''send failed''" list_tools_handler "''c1''" list_tools_request
      "snd (transport_send ''c1''
              (JSONRPCResponse (IdInt 7) (Result (JObj [(''tools'', JArr [])])))
              (example_coordinator [True]))"
      "example_coordinator [True]" "IdInt 7" "- 32001" cleanup_client_op
      "fst (execute_request_handler (- 32001) cleanup_client_op list_tools_handler
        ''c1'' (IdInt 7) list_tools_request (example_coordinator [True]))"
      "snd (execute_request_handler (- 32001) cleanup_client_op list_tools_handler
        ''c1'' (IdInt 7) list_tools_request (example_coordinator [True]))"]
  by (simp add: example_defs run_defs)

end
